theory Spec2Isabelle
  imports Main "HOL-Library.AList" "HOL-Library.Sublist"
begin

section \<open>Values, resources, outputs, conditions and the template\<close>

text \<open>
  The blueprints of \<^verbatim>\<open>stacker_blueprints/aws_lambda.py\<close> and
  \<^verbatim>\<open>stacker_blueprints/postgres.py\<close> build a troposphere template: a graph of
  named resources, a sequence of outputs and a registry of named conditions.  Property
  values are literals, references to other nodes of the graph (\<open>Ref\<close>, \<open>GetAtt\<close>),
  intrinsic functions (\<open>Join\<close>) or nested property objects.  An object built by a
  troposphere or awacs class is kept as the class name with its keyword arguments, in the
  order the source writes them; a value an imported helper returns is kept opaque.
\<close>

datatype val =
    Str string
  | Num int
  | Flag bool
  | Lst "val list"
  | Dict "(string \<times> val) list"
  | Ref string
  | GetAtt string string
  | Join string "val list"
  | Obj string "(string \<times> val) list"
  | Opaque string

text \<open>troposphere's pseudo parameters: \<^verbatim>\<open>NoValue = Ref("AWS::NoValue")\<close> and so on.\<close>

definition NoValue :: val where
  "NoValue = Ref ''AWS::NoValue''"

definition Region :: val where
  "Region = Ref ''AWS::Region''"

definition AccountId :: val where
  "AccountId = Ref ''AWS::AccountId''"

datatype error =
    MissingRequiredVariable string
  | TypeMismatch string
  | UnknownField string
  | UndefinedCondition string
  | UnresolvedReference string
  | DuplicateResourceName string
  | AttributeError string
  | ValueError string
  | TypeError string

datatype resource_kind =
    IAM_Role
  | IAM_PolicyType
  | Lambda_Function
  | Lambda_Version
  | Lambda_Alias
  | Lambda_Permission
  | Events_Rule
  | RDS_DBInstance
  | RDS_DBSubnetGroup
  | EC2_SecurityGroup
  | Route53_RecordSetType

record resource =
  title :: string
  kind :: resource_kind
  properties :: "(string \<times> val) list"
  resource_condition :: "string option"

record cfn_output =
  output_name :: string
  output_value :: val
  output_condition :: "string option"

text \<open>
  Condition expressions of \<^verbatim>\<open>troposphere\<close>: \<^verbatim>\<open>Not\<close>, \<^verbatim>\<open>Equals\<close>,
  \<^verbatim>\<open>Condition\<close> (a reference to a named condition) and \<^verbatim>\<open>And\<close>.
\<close>

datatype cond_expr =
    Not_cond cond_expr
  | Equals val val
  | Condition string
  | And "cond_expr list"

record template =
  resources :: "resource list"
  outputs :: "cfn_output list"
  conditions :: "(string \<times> cond_expr) list"

definition fresh_template :: template where
  "fresh_template = \<lparr>resources = [], outputs = [], conditions = []\<rparr>"

definition Resource :: "string \<Rightarrow> resource_kind \<Rightarrow> (string \<times> val) list \<Rightarrow> resource" where
  "Resource t k ps = \<lparr>title = t, kind = k, properties = ps, resource_condition = None\<rparr>"

definition Output :: "string \<Rightarrow> val \<Rightarrow> cfn_output" where
  "Output n v = \<lparr>output_name = n, output_value = v, output_condition = None\<rparr>"

text \<open>
  What troposphere checks when an object is constructed.  A resource's title must be
  alphanumeric (\<^verbatim>\<open>validate_title\<close>, against \<^verbatim>\<open>^[a-zA-Z0-9]+$\<close>; an empty title is
  not checked): otherwise the constructor raises \<^verbatim>\<open>ValueError\<close>, here with the title.
\<close>

definition alphanumeric :: "char \<Rightarrow> bool" where
  "alphanumeric c =
     (let n = (of_char c :: nat)
      in (97 \<le> n \<and> n \<le> 122) \<or> (65 \<le> n \<and> n \<le> 90) \<or> (48 \<le> n \<and> n \<le> 57))"

definition validate_title :: "string \<Rightarrow> bool" where
  "validate_title t = list_all alphanumeric t"

text \<open>
  The constructor of a resource class whose keyword arguments the source fixes
  (literals, references and strings): only the title can be refused.
\<close>

definition new_resource :: "string \<Rightarrow> resource_kind \<Rightarrow> (string \<times> val) list \<Rightarrow> error + resource" where
  "new_resource t k ps =
     (if validate_title t then Inr (Resource t k ps) else Inl (ValueError t))"

text \<open>
  The check a class makes on the value of one property (the type of the value, or the
  property's validator function, such as those of \<^verbatim>\<open>MemorySize\<close>, \<^verbatim>\<open>Timeout\<close> and
  the \<^verbatim>\<open>Variables\<close> of an environment) belongs to troposphere and differs between its
  versions.  It is taken as given: the parameter \<open>chk cls k v\<close> is the error the class
  \<open>cls\<close> raises for the value \<open>v\<close> of its property \<open>k\<close>, if any.  A value that is an
  intrinsic function (an \<^verbatim>\<open>AWSHelperFn\<close>, such as \<^verbatim>\<open>Ref\<close>, \<^verbatim>\<open>GetAtt\<close>, \<^verbatim>\<open>Join\<close>
  and \<^verbatim>\<open>NoValue\<close>) is accepted unchecked.  The keyword arguments are set in the order
  they are written, and the first error is raised.
\<close>

type_synonym property_check = "string \<Rightarrow> string \<Rightarrow> val \<Rightarrow> error option"

definition is_AWSHelperFn :: "val \<Rightarrow> bool" where
  "is_AWSHelperFn v = (case v of Ref n \<Rightarrow> True | GetAtt n a \<Rightarrow> True | Join d vs \<Rightarrow> True | _ \<Rightarrow> False)"

definition check_property :: "property_check \<Rightarrow> string \<Rightarrow> string \<Rightarrow> val \<Rightarrow> error option" where
  "check_property chk cls k v = (if is_AWSHelperFn v then None else chk cls k v)"

fun check_properties :: "property_check \<Rightarrow> string \<Rightarrow> (string \<times> val) list \<Rightarrow> error option" where
  "check_properties chk cls [] = None"
| "check_properties chk cls ((k, v) # kwargs) =
     (case check_property chk cls k v of
        Some e \<Rightarrow> Some e
      | None \<Rightarrow> check_properties chk cls kwargs)"

text \<open>
  The constructor of a property class (no title) and of a resource class, for classes
  that receive values of variables.
\<close>

definition AWSProperty :: "property_check \<Rightarrow> string \<Rightarrow> (string \<times> val) list \<Rightarrow> error + val" where
  "AWSProperty chk cls kwargs =
     (case check_properties chk cls kwargs of
        Some e \<Rightarrow> Inl e
      | None \<Rightarrow> Inr (Obj cls kwargs))"

definition AWSObject ::
    "property_check \<Rightarrow> string \<Rightarrow> string \<Rightarrow> resource_kind \<Rightarrow> (string \<times> val) list \<Rightarrow> error + resource" where
  "AWSObject chk cls t k kwargs =
     (if \<not> validate_title t then Inl (ValueError t)
      else case check_properties chk cls kwargs of
             Some e \<Rightarrow> Inl e
           | None \<Rightarrow> Inr (Resource t k kwargs))"

text \<open>
  Modelled from the spec: \<^verbatim>\<open>Template.add_resource\<close> belongs to troposphere and is not
  part of the sources.  Section 4.3 of the specification: a construction step appends to
  the graph, and assigning a name that is already in the graph fails with
  \<^verbatim>\<open>DuplicateResourceName\<close>.
\<close>

definition add_resource :: "resource \<Rightarrow> template \<Rightarrow> error + template" where
  "add_resource r t =
     (if title r \<in> set (map title (resources t))
      then Inl (DuplicateResourceName (title r))
      else Inr (t\<lparr>resources := resources t @ [r]\<rparr>))"

text \<open>
  Modelled from the spec: \<^verbatim>\<open>Template.add_output\<close> appends an output; emission
  order is declaration order (section 4.4).
\<close>

definition add_output :: "cfn_output \<Rightarrow> template \<Rightarrow> template" where
  "add_output out t = t\<lparr>outputs := outputs t @ [out]\<rparr>"

text \<open>The condition names an expression refers to, left to right.\<close>

fun operands :: "cond_expr \<Rightarrow> string list" where
  "operands (Not_cond c) = operands c"
| "operands (Equals a b) = []"
| "operands (Condition n) = [n]"
| "operands (And cs) = concat (map operands cs)"

text \<open>
  Modelled from the spec: \<^verbatim>\<open>Template.add_condition\<close> belongs to troposphere.
  Section 4.2: registering a condition fails with \<^verbatim>\<open>UndefinedCondition\<close> when an
  operand names a condition that is not yet registered; the error names the first such
  operand.  A registered name keeps its place when it is registered again.
\<close>

definition add_condition :: "string \<Rightarrow> cond_expr \<Rightarrow> template \<Rightarrow> error + template" where
  "add_condition n c t =
     (case filter (\<lambda>x. x \<notin> set (map fst (conditions t))) (operands c) of
        [] \<Rightarrow> Inr (t\<lparr>conditions := AList.update n c (conditions t)\<rparr>)
      | x # _ \<Rightarrow> Inl (UndefinedCondition x))"

section \<open>The Lambda function blueprint\<close>

text \<open>
  The resolved variables of \<^verbatim>\<open>Function\<close>, as \<^verbatim>\<open>get_variables()\<close> returns them:
  one value of the declared type for each entry of \<^verbatim>\<open>Function.VARIABLES\<close>.
\<close>

record function_variables =
  Code :: val
  DeadLetterArn :: string
  Description :: string
  Environment :: "(string \<times> val) list"
  Handler :: string
  KmsKeyArn :: string
  MemorySize :: int
  Runtime :: string
  Timeout :: int
  VpcConfig :: "(string \<times> val) list"
  Role :: string
  AliasName :: string
  AliasVersion :: string

text \<open>
  A blueprint object (stacker's \<^verbatim>\<open>Blueprint\<close>): its name, the context's
  \<^verbatim>\<open>get_fqn\<close> (stacker's, taken as given), the resolved variables and the template
  under construction.
\<close>

record 'v blueprint =
  name :: string
  get_fqn :: "string \<Rightarrow> string"
  variables :: 'v
  template :: template

text \<open>
  \<^verbatim>\<open>class Function(Blueprint)\<close>, with the attributes its construction steps set on
  \<^verbatim>\<open>self\<close>.  An attribute not yet assigned is \<open>None\<close>; reading it raises
  \<^verbatim>\<open>AttributeError\<close>.
\<close>

record function_blueprint = "function_variables blueprint" +
  role :: "resource option"
  role_arn :: "val option"
  function_resource :: "resource option"
  function_version :: "resource option"
  alias_resource :: "resource option"
  policy :: "resource option"

definition lambda_basic_execution_statements :: "val \<Rightarrow> val list" where
  "lambda_basic_execution_statements log_group =
     (let log_group_parts = [Str ''arn:aws:logs:'', Region, Str '':'', AccountId,
                             Str '':log-group:'', log_group];
          log_group_arn = Join '''' log_group_parts;
          log_stream_wild = Join '''' (log_group_parts @ [Str '':*''])
      in [Obj ''Statement''
            [(''Effect'', Str ''Allow''),
             (''Resource'', Lst [log_group_arn, log_stream_wild]),
             (''Action'', Lst [Str ''logs:CreateLogGroup'', Str ''logs:CreateLogStream'',
                               Str ''logs:PutLogEvents''])]])"

definition code :: "function_blueprint \<Rightarrow> val" where
  "code self = Code (variables self)"

definition dead_letter_config :: "property_check \<Rightarrow> function_blueprint \<Rightarrow> error + val" where
  "dead_letter_config chk self =
     (let arn = DeadLetterArn (variables self)
      in if arn \<noteq> [] then AWSProperty chk ''DeadLetterConfig'' [(''TargetArn'', Str arn)]
         else Inr NoValue)"

definition environment :: "property_check \<Rightarrow> function_blueprint \<Rightarrow> error + val" where
  "environment chk self =
     (let environment = Environment (variables self)
      in if environment \<noteq> [] then AWSProperty chk ''Environment'' [(''Variables'', Dict environment)]
         else Inr NoValue)"

text \<open>
  \<^verbatim>\<open>awslambda.VPCConfig(**vpc_config)\<close> takes the mapping's entries as keyword
  arguments.  The variable's description names the valid keys, \<^verbatim>\<open>SecurityGroupIds\<close>
  and \<^verbatim>\<open>SubnetIds\<close>; the property class refuses any other key (the specification's
  \<^verbatim>\<open>UnknownField\<close>) and checks the value of a key it knows.
\<close>

definition VPCConfig_keys :: "string list" where
  "VPCConfig_keys = [''SecurityGroupIds'', ''SubnetIds'']"

fun VPCConfig_error :: "property_check \<Rightarrow> (string \<times> val) list \<Rightarrow> error option" where
  "VPCConfig_error chk [] = None"
| "VPCConfig_error chk ((k, v) # kwargs) =
     (if k \<notin> set VPCConfig_keys then Some (UnknownField k)
      else case check_property chk ''VPCConfig'' k v of
             Some e \<Rightarrow> Some e
           | None \<Rightarrow> VPCConfig_error chk kwargs)"

definition VPCConfig :: "property_check \<Rightarrow> (string \<times> val) list \<Rightarrow> error + val" where
  "VPCConfig chk kwargs =
     (case VPCConfig_error chk kwargs of
        Some e \<Rightarrow> Inl e
      | None \<Rightarrow> Inr (Obj ''VPCConfig'' kwargs))"

definition vpc_config :: "property_check \<Rightarrow> function_blueprint \<Rightarrow> error + val" where
  "vpc_config chk self =
     (let vpc_config = VpcConfig (variables self)
      in if vpc_config \<noteq> [] then VPCConfig chk vpc_config else Inr NoValue)"

definition generate_policy_statements :: "function_blueprint \<Rightarrow> val list" where
  "generate_policy_statements self =
     (let log_group = Join ''/'' [Str ''/aws/lambda'', Ref ''Function'']
      in lambda_basic_execution_statements log_group)"

definition create_role :: "function_blueprint \<Rightarrow> error + function_blueprint" where
  "create_role self =
     (case new_resource ''Role'' IAM_Role
             [(''AssumeRolePolicyDocument'', Opaque ''get_lambda_assumerole_policy()'')] of
        Inl e \<Rightarrow> Inl e
      | Inr r \<Rightarrow>
     (case add_resource r (template self) of
        Inl e \<Rightarrow> Inl e
      | Inr t1 \<Rightarrow>
          (let t2 = add_output (Output ''RoleName'' (Ref (title r))) t1;
               arn = GetAtt (title r) ''Arn'';
               t3 = add_output (Output ''RoleArn'' arn) t2
           in Inr (self\<lparr>template := t3, role := Some r, role_arn := Some arn\<rparr>))))"

text \<open>
  \<^verbatim>\<open>x or NoValue\<close> on a string: the string when it is not empty.
\<close>

definition or_NoValue :: "string \<Rightarrow> val" where
  "or_NoValue s = (if s \<noteq> [] then Str s else NoValue)"

text \<open>
  The keyword arguments of \<^verbatim>\<open>awslambda.Function\<close> are evaluated in the order they are
  written, so \<^verbatim>\<open>dead_letter_config\<close>, \<^verbatim>\<open>environment\<close>, the read of
  \<^verbatim>\<open>self.role_arn\<close> and \<^verbatim>\<open>vpc_config\<close> may raise, in this order, before the
  constructor runs.
\<close>

definition create_function :: "property_check \<Rightarrow> function_blueprint \<Rightarrow> error + function_blueprint" where
  "create_function chk self =
     (let vars = variables self in
      case dead_letter_config chk self of
        Inl e \<Rightarrow> Inl e
      | Inr dlc \<Rightarrow>
      (case environment chk self of
        Inl e \<Rightarrow> Inl e
      | Inr env \<Rightarrow>
      (case role_arn self of
        None \<Rightarrow> Inl (AttributeError ''role_arn'')
      | Some arn \<Rightarrow>
      (case vpc_config chk self of
        Inl e \<Rightarrow> Inl e
      | Inr vpc \<Rightarrow>
      (case AWSObject chk ''Function'' ''Function'' Lambda_Function
              [(''Code'', code self),
               (''DeadLetterConfig'', dlc),
               (''Description'', or_NoValue (Description vars)),
               (''Environment'', env),
               (''Handler'', Str (Handler vars)),
               (''KmsKeyArn'', or_NoValue (KmsKeyArn vars)),
               (''MemorySize'', Num (MemorySize vars)),
               (''Role'', arn),
               (''Runtime'', Str (Runtime vars)),
               (''Timeout'', Num (Timeout vars)),
               (''VpcConfig'', vpc)] of
        Inl e \<Rightarrow> Inl e
      | Inr f \<Rightarrow>
      (case add_resource f (template self) of
        Inl e \<Rightarrow> Inl e
      | Inr t1 \<Rightarrow>
      (let t2 = add_output (Output ''FunctionName'' (Ref (title f))) t1;
           t3 = add_output (Output ''FunctionArn'' (GetAtt (title f) ''Arn'')) t2
       in case new_resource ''LatestVersion'' Lambda_Version
                 [(''FunctionName'', Ref (title f))] of
        Inl e \<Rightarrow> Inl e
      | Inr v \<Rightarrow>
      (case add_resource v t3 of
        Inl e \<Rightarrow> Inl e
      | Inr t4 \<Rightarrow>
      (let t5 = add_output (Output ''LatestVersion'' (Ref (title v))) t4;
           t6 = add_output (Output ''LatestVersionArn'' (GetAtt (title v) ''Version'')) t5;
           self1 = self\<lparr>template := t6, function_resource := Some f, function_version := Some v\<rparr>;
           alias_name = AliasName vars
       in if alias_name \<noteq> [] then
            (case AWSObject chk ''Alias'' ''Alias'' Lambda_Alias
                    [(''Name'', Str alias_name),
                     (''FunctionName'', Ref (title f)),
                     (''FunctionVersion'',
                      Str (if AliasVersion vars \<noteq> [] then AliasVersion vars
                           else ''$LATEST''))] of
               Inl e \<Rightarrow> Inl e
             | Inr a \<Rightarrow>
            (case add_resource a t6 of
               Inl e \<Rightarrow> Inl e
             | Inr t7 \<Rightarrow>
                 Inr (self1\<lparr>template := add_output (Output ''AliasArn'' (Ref (title a))) t7,
                            alias_resource := Some a\<rparr>)))
          else Inr self1)))))))))"

definition create_policy :: "function_blueprint \<Rightarrow> error + function_blueprint" where
  "create_policy self =
     (let policy_prefix = get_fqn self (name self) in
      case role self of
        None \<Rightarrow> Inl (AttributeError ''role'')
      | Some r \<Rightarrow>
      (case new_resource ''Policy'' IAM_PolicyType
              [(''PolicyName'', Str (policy_prefix @ ''-policy'')),
               (''PolicyDocument'',
                Obj ''Policy'' [(''Statement'', Lst (generate_policy_statements self))]),
               (''Roles'', Lst [Ref (title r)])] of
         Inl e \<Rightarrow> Inl e
       | Inr p \<Rightarrow>
      (case add_resource p (template self) of
         Inl e \<Rightarrow> Inl e
       | Inr t1 \<Rightarrow>
           Inr (self\<lparr>template := add_output (Output ''PolicyName'' (Ref (title p))) t1,
                     policy := Some p\<rparr>))))"

definition Function_create_template :: "property_check \<Rightarrow> function_blueprint \<Rightarrow> error + function_blueprint" where
  "Function_create_template chk self =
     (let vars = variables self;
          self1 = self\<lparr>role_arn := Some (Str (Role vars))\<rparr>
      in if Role vars = [] then
           (case create_role self1 of
              Inl e \<Rightarrow> Inl e
            | Inr self2 \<Rightarrow>
                (case create_policy self2 of
                   Inl e \<Rightarrow> Inl e
                 | Inr self3 \<Rightarrow> create_function chk self3))
         else create_function chk self1)"

text \<open>A blueprint before rendering: a fresh template and no attribute assigned.\<close>

definition Function :: "string \<Rightarrow> (string \<Rightarrow> string) \<Rightarrow> function_variables \<Rightarrow> function_blueprint" where
  "Function n fqn vars =
     \<lparr>name = n, get_fqn = fqn, variables = vars, template = fresh_template,
      role = None, role_arn = None, function_resource = None, function_version = None,
      alias_resource = None, policy = None\<rparr>"

section \<open>The scheduler blueprint\<close>

text \<open>
  Modelled from the spec: \<^verbatim>\<open>cf_safe_name\<close> is imported from \<^verbatim>\<open>stacker.util\<close>
  and is not part of the sources.  It sanitizes an identifier to alphanumeric
  characters only: the maximal alphanumeric runs of the name (\<^verbatim>\<open>[a-zA-Z0-9]+\<close>),
  each with its first letter in upper case, joined.
\<close>

definition upper :: "char \<Rightarrow> char" where
  "upper c = (let n = (of_char c :: nat) in if 97 \<le> n \<and> n \<le> 122 then char_of (n - 32) else c)"

function findall_alphanumeric :: "string \<Rightarrow> string list" where
  "findall_alphanumeric [] = []"
| "findall_alphanumeric (c # cs) =
     (if alphanumeric c
      then (c # takeWhile alphanumeric cs) # findall_alphanumeric (dropWhile alphanumeric cs)
      else findall_alphanumeric cs)"
  by pat_completeness auto
termination
  by (relation "measure length") (auto simp: length_dropWhile_le less_Suc_eq_le)

fun uppercase_first_letter :: "string \<Rightarrow> string" where
  "uppercase_first_letter [] = []"
| "uppercase_first_letter (c # cs) = upper c # cs"

definition cf_safe_name :: "string \<Rightarrow> string" where
  "cf_safe_name n = concat (map uppercase_first_letter (findall_alphanumeric n))"

text \<open>
  A target of an events rule; \<^verbatim>\<open>Id\<close> and \<^verbatim>\<open>Arn\<close> are the two properties the
  blueprint reads (the field for \<^verbatim>\<open>Id\<close> is named \<open>Id_target\<close>).  The rule is the
  \<^verbatim>\<open>events.Rule\<close> object the variable \<^verbatim>\<open>CloudwatchEventsRule\<close> resolves to:
  a resource with its title, its \<^verbatim>\<open>Targets\<close> when the property is set, and its
  other properties.
\<close>

record target =
  Id_target :: string
  Arn :: string
  target_properties :: "(string \<times> val) list"

record events_rule =
  rule_title :: string
  Targets :: "target list option"
  rule_properties :: "(string \<times> val) list"

record scheduler_variables =
  CloudwatchEventsRule :: events_rule

definition target_val :: "target \<Rightarrow> val" where
  "target_val t = Obj ''Target'' ((''Arn'', Str (Arn t)) # (''Id'', Str (Id_target t)) # target_properties t)"

definition rule_resource :: "events_rule \<Rightarrow> resource" where
  "rule_resource r =
     Resource (rule_title r) Events_Rule
       (rule_properties r @
        (case Targets r of None \<Rightarrow> [] | Some ts \<Rightarrow> [(''Targets'', Lst (map target_val ts))]))"

text \<open>
  The first loop of \<^verbatim>\<open>create_scheduler\<close>: the dictionary \<^verbatim>\<open>aws_lambda_arns\<close>,
  as an association list in insertion order; assigning to a key that is present replaces
  its value in place.
\<close>

fun gather_lambda_arns :: "target list \<Rightarrow> (string \<times> string) list \<Rightarrow> (string \<times> string) list" where
  "gather_lambda_arns [] aws_lambda_arns = aws_lambda_arns"
| "gather_lambda_arns (target # ts) aws_lambda_arns =
     gather_lambda_arns ts
       (if prefix ''arn:aws:lambda:'' (Arn target)
        then AList.update (cf_safe_name (Id_target target)) (Arn target) aws_lambda_arns
        else aws_lambda_arns)"

text \<open>
  The permission built for one item of the dictionary.  Its title is alphanumeric for
  every sanitized Id (lemma \<open>Permission_title_valid\<close>), so the title check of the
  constructor is not a branch here; the rule is an object that was constructed when the
  variable was resolved, before the blueprint runs.
\<close>

definition Permission :: "string \<Rightarrow> string \<Rightarrow> val \<Rightarrow> resource" where
  "Permission event_rule_target_id aws_lambda_arn source_arn =
     Resource (''PermToInvokeFunctionFor'' @ event_rule_target_id) Lambda_Permission
       [(''Principal'', Str ''events.amazonaws.com''),
        (''Action'', Str ''lambda:InvokeFunction''),
        (''FunctionName'', Str aws_lambda_arn),
        (''SourceArn'', source_arn)]"

text \<open>The second loop: one \<^verbatim>\<open>add_resource\<close> for each item of the dictionary.\<close>

fun add_permissions :: "val \<Rightarrow> (string \<times> string) list \<Rightarrow> template \<Rightarrow> error + template" where
  "add_permissions source_arn [] t = Inr t"
| "add_permissions source_arn ((event_rule_target_id, aws_lambda_arn) # items) t =
     (case add_resource (Permission event_rule_target_id aws_lambda_arn source_arn) t of
        Inl e \<Rightarrow> Inl e
      | Inr t' \<Rightarrow> add_permissions source_arn items t')"

definition create_scheduler :: "scheduler_variables blueprint \<Rightarrow> error + scheduler_variables blueprint" where
  "create_scheduler self =
     (let troposphere_events_rule = CloudwatchEventsRule (variables self);
          aws_lambda_arns =
            gather_lambda_arns
              (case Targets troposphere_events_rule of None \<Rightarrow> [] | Some ts \<Rightarrow> ts) []
      in case add_resource (rule_resource troposphere_events_rule) (template self) of
           Inl e \<Rightarrow> Inl e
         | Inr t1 \<Rightarrow>
             (case add_permissions (GetAtt (rule_title troposphere_events_rule) ''Arn'')
                     aws_lambda_arns t1 of
                Inl e \<Rightarrow> Inl e
              | Inr t2 \<Rightarrow> Inr (self\<lparr>template := t2\<rparr>)))"

definition FunctionScheduler_create_template ::
    "scheduler_variables blueprint \<Rightarrow> error + scheduler_variables blueprint" where
  "FunctionScheduler_create_template self = create_scheduler self"

definition FunctionScheduler ::
    "string \<Rightarrow> (string \<Rightarrow> string) \<Rightarrow> scheduler_variables \<Rightarrow> scheduler_variables blueprint" where
  "FunctionScheduler n fqn vars =
     \<lparr>name = n, get_fqn = fqn, variables = vars, template = fresh_template\<rparr>"

section \<open>The Postgres RDS blueprint\<close>

text \<open>
  Every variable of \<^verbatim>\<open>PostgresRDS\<close> has a CloudFormation parameter type: the
  template refers to it by \<^verbatim>\<open>Ref\<close>, and its value reaches the template as the value
  of the parameter of the same name.
\<close>

record postgres_variables =
  VpcId :: string
  PrivateSubnets :: "string list"
  InstanceType :: string
  AllocatedStorage :: string
  MasterUser :: string
  MasterUserPassword :: string
  PreferredBackupWindow :: string
  DBName :: string
  InternalZoneId :: string
  InternalZoneName :: string
  InternalHostname :: string

definition RDS_INSTANCE_NAME :: "string \<Rightarrow> string" where
  "RDS_INSTANCE_NAME n = ''PostgresRDS'' @ n"

definition RDS_SUBNET_GROUP :: "string \<Rightarrow> string" where
  "RDS_SUBNET_GROUP n = n @ ''SubnetGroup''"

definition RDS_SG_NAME :: "string \<Rightarrow> string" where
  "RDS_SG_NAME n = ''RdsSG'' @ n"

definition create_conditions :: "postgres_variables blueprint \<Rightarrow> error + postgres_variables blueprint" where
  "create_conditions self =
     (case add_condition ''HasInternalZone''
             (Not_cond (Equals (Ref ''InternalZoneId'') (Str ''''))) (template self) of
        Inl e \<Rightarrow> Inl e
      | Inr t1 \<Rightarrow>
     (case add_condition ''HasInternalZoneName''
             (Not_cond (Equals (Ref ''InternalZoneName'') (Str ''''))) t1 of
        Inl e \<Rightarrow> Inl e
      | Inr t2 \<Rightarrow>
     (case add_condition ''HasInternalHostname''
             (Not_cond (Equals (Ref ''InternalHostname'') (Str ''''))) t2 of
        Inl e \<Rightarrow> Inl e
      | Inr t3 \<Rightarrow>
     (case add_condition ''CreateInternalHostname''
             (And [Condition ''HasInternalZone'', Condition ''HasInternalZoneName'',
                   Condition ''HasInternalHostname'']) t3 of
        Inl e \<Rightarrow> Inl e
      | Inr t4 \<Rightarrow> Inr (self\<lparr>template := t4\<rparr>)))))"

definition create_subnet_group :: "postgres_variables blueprint \<Rightarrow> error + postgres_variables blueprint" where
  "create_subnet_group self =
     (case new_resource (RDS_SUBNET_GROUP (name self)) RDS_DBSubnetGroup
             [(''DBSubnetGroupDescription'', Str (name self @ '' VPC subnet group.'')),
              (''SubnetIds'', Ref ''PrivateSubnets'')] of
        Inl e \<Rightarrow> Inl e
      | Inr g \<Rightarrow>
     (case add_resource g (template self) of
        Inl e \<Rightarrow> Inl e
      | Inr t1 \<Rightarrow> Inr (self\<lparr>template := t1\<rparr>)))"

definition create_security_group :: "postgres_variables blueprint \<Rightarrow> error + postgres_variables blueprint" where
  "create_security_group self =
     (let sg_name = RDS_SG_NAME (name self) in
      case new_resource sg_name EC2_SecurityGroup
             [(''GroupDescription'', Str (sg_name @ '' RDS security group'')),
              (''VpcId'', Ref ''VpcId'')] of
        Inl e \<Rightarrow> Inl e
      | Inr sg \<Rightarrow>
     (case add_resource sg (template self) of
        Inl e \<Rightarrow> Inl e
      | Inr t1 \<Rightarrow>
          Inr (self\<lparr>template := add_output (Output ''SecurityGroup'' (Ref (title sg))) t1\<rparr>)))"

definition create_rds :: "postgres_variables blueprint \<Rightarrow> error + postgres_variables blueprint" where
  "create_rds self =
     (let db_name = RDS_INSTANCE_NAME (name self) in
      case new_resource db_name RDS_DBInstance
             [(''AllocatedStorage'', Ref ''AllocatedStorage''),
              (''AllowMajorVersionUpgrade'', Flag False),
              (''AutoMinorVersionUpgrade'', Flag True),
              (''BackupRetentionPeriod'', Num 30),
              (''DBName'', Ref ''DBName''),
              (''DBInstanceClass'', Ref ''InstanceType''),
              (''DBSubnetGroupName'', Ref (RDS_SUBNET_GROUP (name self))),
              (''Engine'', Str ''postgres''),
              (''EngineVersion'', Str ''9.3.14''),
              (''MasterUsername'', Ref ''MasterUser''),
              (''MasterUserPassword'', Ref ''MasterUserPassword''),
              (''MultiAZ'', Flag True),
              (''PreferredBackupWindow'', Ref ''PreferredBackupWindow''),
              (''VPCSecurityGroups'', Lst [Ref (RDS_SG_NAME (name self))])] of
        Inl e \<Rightarrow> Inl e
      | Inr db \<Rightarrow>
     (case add_resource db (template self) of
        Inl e \<Rightarrow> Inl e
      | Inr t1 \<Rightarrow>
     (let endpoint = GetAtt db_name ''Endpoint.Address'' in
      case new_resource (db_name @ ''DnsRecord'') Route53_RecordSetType
             [(''HostedZoneId'', Ref ''InternalZoneId''),
              (''Comment'', Str ''RDS DB CNAME Record''),
              (''Name'', Join ''.'' [Ref ''InternalHostname'', Ref ''InternalZoneName'']),
              (''Type'', Str ''CNAME''),
              (''TTL'', Str ''120''),
              (''ResourceRecords'', Lst [endpoint])] of
        Inl e \<Rightarrow> Inl e
      | Inr dns \<Rightarrow>
     (case add_resource (dns\<lparr>resource_condition := Some ''CreateInternalHostname''\<rparr>) t1 of
        Inl e \<Rightarrow> Inl e
      | Inr t2 \<Rightarrow>
     (let t3 = add_output (Output ''DBAddress'' endpoint) t2;
          t4 = add_output
                 ((Output ''DBCname'' (Ref (db_name @ ''DnsRecord'')))
                  \<lparr>output_condition := Some ''CreateInternalHostname''\<rparr>) t3
      in Inr (self\<lparr>template := t4\<rparr>))))))"

definition PostgresRDS_create_template ::
    "postgres_variables blueprint \<Rightarrow> error + postgres_variables blueprint" where
  "PostgresRDS_create_template self =
     (case create_conditions self of
        Inl e \<Rightarrow> Inl e
      | Inr self1 \<Rightarrow>
     (case create_subnet_group self1 of
        Inl e \<Rightarrow> Inl e
      | Inr self2 \<Rightarrow>
     (case create_security_group self2 of
        Inl e \<Rightarrow> Inl e
      | Inr self3 \<Rightarrow> create_rds self3)))"

definition PostgresRDS ::
    "string \<Rightarrow> (string \<Rightarrow> string) \<Rightarrow> postgres_variables \<Rightarrow> postgres_variables blueprint" where
  "PostgresRDS n fqn vars =
     \<lparr>name = n, get_fqn = fqn, variables = vars, template = fresh_template\<rparr>"

section \<open>Rendering: parameters and condition evaluation\<close>

text \<open>
  Modelled from the spec: the values of the template's parameters.  stacker (not part of
  the sources) turns each variable of a CloudFormation parameter type into a parameter of
  the same name and passes the variable's value for it.
\<close>

definition parameters :: "postgres_variables \<Rightarrow> (string \<times> val) list" where
  "parameters vars =
     [(''VpcId'', Str (VpcId vars)),
      (''PrivateSubnets'', Lst (map Str (PrivateSubnets vars))),
      (''InstanceType'', Str (InstanceType vars)),
      (''AllocatedStorage'', Str (AllocatedStorage vars)),
      (''MasterUser'', Str (MasterUser vars)),
      (''MasterUserPassword'', Str (MasterUserPassword vars)),
      (''PreferredBackupWindow'', Str (PreferredBackupWindow vars)),
      (''DBName'', Str (DBName vars)),
      (''InternalZoneId'', Str (InternalZoneId vars)),
      (''InternalZoneName'', Str (InternalZoneName vars)),
      (''InternalHostname'', Str (InternalHostname vars))]"

text \<open>
  Modelled from the spec: condition evaluation belongs to the renderer.  Section 4.2:
  given the resolved variables each condition evaluates to a fixed boolean, and a
  condition depends only on conditions registered before it.  A \<^verbatim>\<open>Ref\<close> operand of
  \<^verbatim>\<open>Equals\<close> stands for the parameter's value; an expression over an undefined
  parameter or condition has no value.
\<close>

definition operand_value :: "(string \<rightharpoonup> val) \<Rightarrow> val \<Rightarrow> val option" where
  "operand_value ps v = (case v of Ref p \<Rightarrow> ps p | _ \<Rightarrow> Some v)"

fun eval_cond :: "(string \<rightharpoonup> val) \<Rightarrow> (string \<rightharpoonup> bool) \<Rightarrow> cond_expr \<Rightarrow> bool option" where
  "eval_cond ps env (Not_cond c) = map_option (\<lambda>b. \<not> b) (eval_cond ps env c)"
| "eval_cond ps env (Equals a b) =
     (case (operand_value ps a, operand_value ps b) of
        (Some x, Some y) \<Rightarrow> Some (x = y)
      | _ \<Rightarrow> None)"
| "eval_cond ps env (Condition n) = env n"
| "eval_cond ps env (And cs) =
     (let bs = map (eval_cond ps env) cs
      in if None \<in> set bs then None else Some (list_all (\<lambda>b. b = Some True) bs))"

fun eval_conditions ::
    "(string \<rightharpoonup> val) \<Rightarrow> (string \<times> cond_expr) list \<Rightarrow> (string \<rightharpoonup> bool) \<Rightarrow> (string \<rightharpoonup> bool)" where
  "eval_conditions ps [] env = env"
| "eval_conditions ps ((n, c) # cs) env =
     eval_conditions ps cs (case eval_cond ps env c of None \<Rightarrow> env | Some b \<Rightarrow> env(n \<mapsto> b))"

definition condition_value :: "postgres_variables \<Rightarrow> template \<Rightarrow> string \<Rightarrow> bool option" where
  "condition_value vars t n =
     eval_conditions (map_of (parameters vars)) (conditions t) Map.empty n"

section \<open>Variable schemas and resolution\<close>

text \<open>
  The declared types of the \<^verbatim>\<open>VARIABLES\<close> dictionaries and one entry of such a
  dictionary: the variable's name, its type and its default when it has one
  (descriptions are documentation and are left out).
\<close>

datatype var_type =
    T_str
  | T_int
  | T_dict
  | T_Code
  | CFNString
  | CFNNumber
  | EC2VPCId
  | EC2SubnetIdList
  | TroposphereType string

record var_spec =
  var_name :: string
  var_type :: var_type
  default_value :: "val option"

definition required :: "string \<Rightarrow> var_type \<Rightarrow> var_spec" where
  "required n ty = \<lparr>var_name = n, var_type = ty, default_value = None\<rparr>"

definition optional :: "string \<Rightarrow> var_type \<Rightarrow> val \<Rightarrow> var_spec" where
  "optional n ty d = \<lparr>var_name = n, var_type = ty, default_value = Some d\<rparr>"

definition Function_VARIABLES :: "var_spec list" where
  "Function_VARIABLES =
     [required ''Code'' T_Code,
      optional ''DeadLetterArn'' T_str (Str ''''),
      optional ''Description'' T_str (Str ''''),
      optional ''Environment'' T_dict (Dict []),
      optional ''Handler'' T_str (Str ''handler''),
      optional ''KmsKeyArn'' T_str (Str ''''),
      optional ''MemorySize'' T_int (Num 128),
      required ''Runtime'' T_str,
      optional ''Timeout'' T_int (Num 3),
      optional ''VpcConfig'' T_dict (Dict []),
      optional ''Role'' T_str (Str ''''),
      optional ''AliasName'' T_str (Str ''''),
      optional ''AliasVersion'' T_str (Str ''$LATEST'')]"

definition FunctionScheduler_VARIABLES :: "var_spec list" where
  "FunctionScheduler_VARIABLES =
     [required ''CloudwatchEventsRule'' (TroposphereType ''events.Rule'')]"

definition PostgresRDS_VARIABLES :: "var_spec list" where
  "PostgresRDS_VARIABLES =
     [required ''VpcId'' EC2VPCId,
      required ''PrivateSubnets'' EC2SubnetIdList,
      optional ''InstanceType'' CFNString (Str ''db.m3.large''),
      optional ''AllocatedStorage'' CFNNumber (Str ''10''),
      optional ''MasterUser'' CFNString (Str ''dbuser''),
      required ''MasterUserPassword'' CFNString,
      optional ''PreferredBackupWindow'' CFNString (Str ''11:00-12:00''),
      required ''DBName'' CFNString,
      optional ''InternalZoneId'' CFNString (Str ''''),
      optional ''InternalZoneName'' CFNString (Str ''''),
      optional ''InternalHostname'' CFNString (Str '''')]"

text \<open>
  Modelled from the spec: the resolver belongs to stacker's \<^verbatim>\<open>Blueprint\<close> and is not
  part of the sources.  Section 4.1: \<^verbatim>\<open>resolve(declaredSchema, suppliedValues)\<close> fails
  with \<^verbatim>\<open>MissingRequiredVariable\<close> when a variable without default is absent and with
  \<^verbatim>\<open>TypeMismatch\<close> when a supplied value is not of the declared type; every declared
  variable appears in the result, with its default, unchanged, when it is not supplied.
  Section 7: a failing render reports the first violation it meets.
\<close>

definition is_Str :: "val \<Rightarrow> bool" where
  "is_Str v = (case v of Str s \<Rightarrow> True | _ \<Rightarrow> False)"

definition is_Num :: "val \<Rightarrow> bool" where
  "is_Num v = (case v of Num n \<Rightarrow> True | _ \<Rightarrow> False)"

definition is_Dict :: "val \<Rightarrow> bool" where
  "is_Dict v = (case v of Dict d \<Rightarrow> True | _ \<Rightarrow> False)"

definition is_Code :: "val \<Rightarrow> bool" where
  "is_Code v = (case v of Obj c kw \<Rightarrow> c = ''Code'' | _ \<Rightarrow> False)"

definition is_Str_list :: "val \<Rightarrow> bool" where
  "is_Str_list v = (case v of Lst vs \<Rightarrow> list_all is_Str vs | _ \<Rightarrow> False)"

fun has_type :: "var_type \<Rightarrow> val \<Rightarrow> bool" where
  "has_type T_str v = is_Str v"
| "has_type T_int v = is_Num v"
| "has_type T_dict v = is_Dict v"
| "has_type T_Code v = is_Code v"
| "has_type CFNString v = is_Str v"
| "has_type CFNNumber v = (is_Str v \<or> is_Num v)"
| "has_type EC2VPCId v = is_Str v"
| "has_type EC2SubnetIdList v = is_Str_list v"
| "has_type (TroposphereType c) v = is_Dict v"

definition resolve_variable :: "var_spec \<Rightarrow> val option \<Rightarrow> error + val" where
  "resolve_variable d provided =
     (case provided of
        Some v \<Rightarrow> if has_type (var_type d) v then Inr v else Inl (TypeMismatch (var_name d))
      | None \<Rightarrow>
          (case default_value d of
             Some v \<Rightarrow> Inr v
           | None \<Rightarrow> Inl (MissingRequiredVariable (var_name d))))"

fun resolve :: "var_spec list \<Rightarrow> (string \<rightharpoonup> val) \<Rightarrow> error + (string \<times> val) list" where
  "resolve [] supplied = Inr []"
| "resolve (d # ds) supplied =
     (case resolve_variable d (supplied (var_name d)) of
        Inl e \<Rightarrow> Inl e
      | Inr v \<Rightarrow>
          (case resolve ds supplied of
             Inl e \<Rightarrow> Inl e
           | Inr r \<Rightarrow> Inr ((var_name d, v) # r)))"

section \<open>Reading a template\<close>

definition resources_of_kind :: "resource_kind \<Rightarrow> template \<Rightarrow> resource list" where
  "resources_of_kind k t = filter (\<lambda>r. kind r = k) (resources t)"

definition property :: "resource \<Rightarrow> string \<Rightarrow> val option" where
  "property r p = map_of (properties r) p"

definition outputs_named :: "string \<Rightarrow> template \<Rightarrow> cfn_output list" where
  "outputs_named n t = filter (\<lambda>out. output_name out = n) (outputs t)"

text \<open>The targets of a rule that the blueprint takes for Lambda functions.\<close>

definition lambda_targets :: "target list \<Rightarrow> target list" where
  "lambda_targets ts = filter (\<lambda>t. prefix ''arn:aws:lambda:'' (Arn t)) ts"

section \<open>The graph of the function blueprint, written out\<close>

text \<open>
  The resources and outputs \<^verbatim>\<open>Function.create_template\<close> is shown to build on a fresh
  template, as functions of the policy prefix and the resolved variables.
\<close>

definition Role_resource :: resource where
  "Role_resource =
     Resource ''Role'' IAM_Role
       [(''AssumeRolePolicyDocument'', Opaque ''get_lambda_assumerole_policy()'')]"

definition Policy_resource :: "string \<Rightarrow> resource" where
  "Policy_resource policy_prefix =
     Resource ''Policy'' IAM_PolicyType
       [(''PolicyName'', Str (policy_prefix @ ''-policy'')),
        (''PolicyDocument'',
         Obj ''Policy''
           [(''Statement'',
             Lst (lambda_basic_execution_statements
                    (Join ''/'' [Str ''/aws/lambda'', Ref ''Function''])))]),
        (''Roles'', Lst [Ref ''Role''])]"



definition LatestVersion_resource :: resource where
  "LatestVersion_resource =
     Resource ''LatestVersion'' Lambda_Version [(''FunctionName'', Ref ''Function'')]"







section \<open>The graph of the Postgres blueprint, written out\<close>

definition postgres_conditions :: "(string \<times> cond_expr) list" where
  "postgres_conditions =
     [(''HasInternalZone'', Not_cond (Equals (Ref ''InternalZoneId'') (Str ''''))),
      (''HasInternalZoneName'', Not_cond (Equals (Ref ''InternalZoneName'') (Str ''''))),
      (''HasInternalHostname'', Not_cond (Equals (Ref ''InternalHostname'') (Str ''''))),
      (''CreateInternalHostname'',
       And [Condition ''HasInternalZone'', Condition ''HasInternalZoneName'',
            Condition ''HasInternalHostname''])]"

fun registered_before :: "string list \<Rightarrow> (string \<times> cond_expr) list \<Rightarrow> bool" where
  "registered_before seen [] = True"
| "registered_before seen ((n, c) # cs) =
     (list_all (\<lambda>x. x \<in> set seen) (operands c) \<and> registered_before (seen @ [n]) cs)"

definition DBInstance_resource :: "string \<Rightarrow> resource" where
  "DBInstance_resource n =
     Resource (RDS_INSTANCE_NAME n) RDS_DBInstance
       [(''AllocatedStorage'', Ref ''AllocatedStorage''),
        (''AllowMajorVersionUpgrade'', Flag False),
        (''AutoMinorVersionUpgrade'', Flag True),
        (''BackupRetentionPeriod'', Num 30),
        (''DBName'', Ref ''DBName''),
        (''DBInstanceClass'', Ref ''InstanceType''),
        (''DBSubnetGroupName'', Ref (RDS_SUBNET_GROUP n)),
        (''Engine'', Str ''postgres''),
        (''EngineVersion'', Str ''9.3.14''),
        (''MasterUsername'', Ref ''MasterUser''),
        (''MasterUserPassword'', Ref ''MasterUserPassword''),
        (''MultiAZ'', Flag True),
        (''PreferredBackupWindow'', Ref ''PreferredBackupWindow''),
        (''VPCSecurityGroups'', Lst [Ref (RDS_SG_NAME n)])]"

definition DnsRecord_resource :: "string \<Rightarrow> resource" where
  "DnsRecord_resource n =
     \<lparr>title = RDS_INSTANCE_NAME n @ ''DnsRecord'', kind = Route53_RecordSetType,
      properties =
        [(''HostedZoneId'', Ref ''InternalZoneId''),
         (''Comment'', Str ''RDS DB CNAME Record''),
         (''Name'', Join ''.'' [Ref ''InternalHostname'', Ref ''InternalZoneName'']),
         (''Type'', Str ''CNAME''),
         (''TTL'', Str ''120''),
         (''ResourceRecords'', Lst [GetAtt (RDS_INSTANCE_NAME n) ''Endpoint.Address''])],
      resource_condition = Some ''CreateInternalHostname''\<rparr>"

definition postgres_resources :: "string \<Rightarrow> resource list" where
  "postgres_resources n =
     [Resource (RDS_SUBNET_GROUP n) RDS_DBSubnetGroup
        [(''DBSubnetGroupDescription'', Str (n @ '' VPC subnet group.'')),
         (''SubnetIds'', Ref ''PrivateSubnets'')],
      Resource (RDS_SG_NAME n) EC2_SecurityGroup
        [(''GroupDescription'', Str (RDS_SG_NAME n @ '' RDS security group'')),
         (''VpcId'', Ref ''VpcId'')],
      DBInstance_resource n,
      DnsRecord_resource n]"

definition DBAddress_output :: "string \<Rightarrow> cfn_output" where
  "DBAddress_output n = Output ''DBAddress'' (GetAtt (RDS_INSTANCE_NAME n) ''Endpoint.Address'')"

definition DBCname_output :: "string \<Rightarrow> cfn_output" where
  "DBCname_output n =
     \<lparr>output_name = ''DBCname'', output_value = Ref (RDS_INSTANCE_NAME n @ ''DnsRecord''),
      output_condition = Some ''CreateInternalHostname''\<rparr>"

definition postgres_outputs :: "string \<Rightarrow> cfn_output list" where
  "postgres_outputs n =
     [Output ''SecurityGroup'' (Ref (RDS_SG_NAME n)), DBAddress_output n, DBCname_output n]"

text \<open>
  Modelled from the spec: the renderer materializes a resource or an output when it has
  no owning condition or its condition evaluates to true (section 3).
\<close>

definition resource_active :: "postgres_variables \<Rightarrow> template \<Rightarrow> resource \<Rightarrow> bool" where
  "resource_active vars t r =
     (case resource_condition r of None \<Rightarrow> True | Some c \<Rightarrow> condition_value vars t c = Some True)"

definition output_active :: "postgres_variables \<Rightarrow> template \<Rightarrow> cfn_output \<Rightarrow> bool" where
  "output_active vars t out =
     (case output_condition out of None \<Rightarrow> True | Some c \<Rightarrow> condition_value vars t c = Some True)"

section \<open>Example inputs\<close>

text \<open>Concrete variable assignments, rules and values, used to instantiate the theorems.\<close>

text \<open>
  An instance of the property checks, of the kind troposphere makes: a memory size that
  is a multiple of 64 from 128 on, a timeout that is not negative, environment variable
  names that start with a letter followed by a letter, digit or underscore, and lists
  for the ids of a VPC configuration.
\<close>

definition letter :: "char \<Rightarrow> bool" where
  "letter c = (let n = (of_char c :: nat) in (97 \<le> n \<and> n \<le> 122) \<or> (65 \<le> n \<and> n \<le> 90))"

definition variable_name :: "string \<Rightarrow> bool" where
  "variable_name n =
     (case n of
        c # d # _ \<Rightarrow> letter c \<and> (alphanumeric d \<or> d = CHR ''_'')
      | _ \<Rightarrow> False)"

definition example_checks :: property_check where
  "example_checks cls k v =
     (if cls = ''Function'' \<and> k = ''MemorySize'' then
        (case v of
           Num m \<Rightarrow> if 128 \<le> m \<and> m mod 64 = 0 then None else Some (ValueError k)
         | _ \<Rightarrow> Some (ValueError k))
      else if cls = ''Function'' \<and> k = ''Timeout'' then
        (case v of
           Num s \<Rightarrow> if 0 \<le> s then None else Some (ValueError k)
         | _ \<Rightarrow> Some (ValueError k))
      else if cls = ''Environment'' \<and> k = ''Variables'' then
        (case v of
           Dict d \<Rightarrow> if list_all variable_name (map fst d) then None else Some (ValueError k)
         | _ \<Rightarrow> Some (TypeError k))
      else if cls = ''VPCConfig'' then
        (case v of Lst ids \<Rightarrow> None | _ \<Rightarrow> Some (TypeError k))
      else None)"

definition example_variables :: function_variables where
  "example_variables =
     \<lparr>Code = Obj ''Code'' [(''S3Bucket'', Str ''bucket''), (''S3Key'', Str ''key'')],
      DeadLetterArn = '''', Description = '''', Environment = [], Handler = ''handler'',
      KmsKeyArn = '''', MemorySize = 128, Runtime = ''python2.7'', Timeout = 3,
      VpcConfig = [], Role = '''', AliasName = ''prod'', AliasVersion = ''''\<rparr>"

definition full_variables :: function_variables where
  "full_variables =
     \<lparr>Code = Obj ''Code'' [(''S3Bucket'', Str ''bucket''), (''S3Key'', Str ''key'')],
      DeadLetterArn = ''arn:aws:sqs:us-east-1:123456789012:dlq'',
      Description = ''nightly job'',
      Environment = [(''STAGE'', Str ''prod'')], Handler = ''handler'',
      KmsKeyArn = ''arn:aws:kms:us-east-1:123456789012:key/k'', MemorySize = 256,
      Runtime = ''python2.7'', Timeout = 30,
      VpcConfig = [(''SecurityGroupIds'', Lst [Str ''sg-1'']), (''SubnetIds'', Lst [Str ''subnet-1''])],
      Role = ''arn:aws:iam::123456789012:role/r'', AliasName = '''', AliasVersion = ''$LATEST''\<rparr>"

definition bogus_variables :: function_variables where
  "bogus_variables = example_variables\<lparr>VpcConfig := [(''Bogus'', Num 1)]\<rparr>"

definition example_rule :: events_rule where
  "example_rule =
     \<lparr>rule_title = ''Schedule'',
      Targets = Some
        [\<lparr>Id_target = ''my-function'', Arn = ''arn:aws:lambda:us-east-1:123456789012:function:f'',
          target_properties = []\<rparr>,
         \<lparr>Id_target = ''topic'', Arn = ''arn:aws:sns:us-east-1:123456789012:t'',
          target_properties = []\<rparr>,
         \<lparr>Id_target = ''other.function'', Arn = ''arn:aws:lambda:us-east-1:123456789012:function:g'',
          target_properties = []\<rparr>],
      rule_properties = [(''ScheduleExpression'', Str ''rate(5 minutes)'')]\<rparr>"

definition clash_rule :: events_rule where
  "clash_rule =
     \<lparr>rule_title = ''PermToInvokeFunctionForA'',
      Targets = Some
        [\<lparr>Id_target = ''a'', Arn = ''arn:aws:lambda:us-east-1:123456789012:function:f'',
          target_properties = []\<rparr>],
      rule_properties = [(''ScheduleExpression'', Str ''rate(5 minutes)'')]\<rparr>"

definition collision_rule :: events_rule where
  "collision_rule =
     \<lparr>rule_title = ''Schedule'',
      Targets = Some
        [\<lparr>Id_target = ''a-b'', Arn = ''arn:aws:lambda:us-east-1:123456789012:function:f'',
          target_properties = []\<rparr>,
         \<lparr>Id_target = ''a_b'', Arn = ''arn:aws:lambda:us-east-1:123456789012:function:g'',
          target_properties = []\<rparr>],
      rule_properties = [(''ScheduleExpression'', Str ''rate(5 minutes)'')]\<rparr>"

definition example_code :: val where
  "example_code = Obj ''Code'' [(''S3Bucket'', Str ''bucket''), (''S3Key'', Str ''key'')]"

definition example_postgres_variables :: postgres_variables where
  "example_postgres_variables =
     \<lparr>VpcId = ''vpc-1'', PrivateSubnets = [''subnet-1'', ''subnet-2''],
      InstanceType = ''db.m3.large'', AllocatedStorage = ''10'', MasterUser = ''dbuser'',
      MasterUserPassword = ''secret'', PreferredBackupWindow = ''11:00-12:00'',
      DBName = ''app'', InternalZoneId = ''Z1'', InternalZoneName = ''internal.example'',
      InternalHostname = ''''\<rparr>"

section \<open>Steps of the function blueprint\<close>

lemma add_output_simps:
  "resources (add_output out t) = resources t"
  "outputs (add_output out t) = outputs t @ [out]"
  "conditions (add_output out t) = conditions t"
  by (simp_all add: add_output_def)

lemma Resource_sel [simp]:
  "title (Resource t k ps) = t"
  "kind (Resource t k ps) = k"
  "properties (Resource t k ps) = ps"
  "resource_condition (Resource t k ps) = None"
  by (simp_all add: Resource_def)

lemma Output_sel [simp]:
  "output_name (Output n v) = n"
  "output_value (Output n v) = v"
  "output_condition (Output n v) = None"
  by (simp_all add: Output_def)

lemma literal_titles:
  "validate_title ''Role''" "validate_title ''Policy''" "validate_title ''Function''"
  "validate_title ''LatestVersion''" "validate_title ''Alias''"
  by code_simp+

lemma new_resource_Inr:
  "new_resource t k ps = Inr r \<longleftrightarrow> validate_title t \<and> r = Resource t k ps"
  by (auto simp: new_resource_def)











lemmas render_defs =
  create_function_def create_role_def create_policy_def Function_create_template_def Let_def
  dead_letter_config_def environment_def vpc_config_def code_def or_NoValue_def
  AWSProperty_def AWSObject_def VPCConfig_def VPCConfig_keys_def new_resource_def
  check_property_def is_AWSHelperFn_def NoValue_def literal_titles
  add_resource_def add_output_def Function_def fresh_template_def

lemmas example_defs =
  example_checks_def example_variables_def full_variables_def bogus_variables_def
  variable_name_def letter_def alphanumeric_def

text \<open>
  The property checks at work: with the checks of the example, a memory size of 127, an
  environment variable named \<^verbatim>\<open>A\<close> and a \<^verbatim>\<open>SubnetIds\<close> that is a string are each
  refused by the constructor, and \<^verbatim>\<open>create_template\<close> raises.
\<close>

lemma constructor_checks_refuse:
  "Function_create_template example_checks
     (Function ''f'' id (example_variables\<lparr>MemorySize := 127\<rparr>)) = Inl (ValueError ''MemorySize'')"
  "Function_create_template example_checks
     (Function ''f'' id (example_variables\<lparr>Environment := [(''A'', Str ''1'')]\<rparr>)) =
     Inl (ValueError ''Variables'')"
  "Function_create_template example_checks
     (Function ''f'' id (example_variables\<lparr>VpcConfig := [(''SubnetIds'', Str ''subnet-1'')]\<rparr>)) =
     Inl (TypeError ''SubnetIds'')"
  by (simp_all add: render_defs example_defs)






lemma create_role_ok:
  assumes "''Role'' \<notin> set (map title (resources (template self)))"
  shows "\<exists>self'. create_role self = Inr self' \<and>
           resources (template self') = resources (template self) @ [Role_resource] \<and>
           outputs (template self') = outputs (template self) @
             [Output ''RoleName'' (Ref ''Role''), Output ''RoleArn'' (GetAtt ''Role'' ''Arn'')] \<and>
           conditions (template self') = conditions (template self) \<and>
           role self' = Some Role_resource \<and> role_arn self' = Some (GetAtt ''Role'' ''Arn'') \<and>
           variables self' = variables self \<and> name self' = name self \<and>
           get_fqn self' = get_fqn self"
  using assms
  by (simp add: create_role_def Let_def new_resource_def literal_titles add_resource_def
      add_output_def Role_resource_def)

lemma create_policy_ok:
  assumes "''Policy'' \<notin> set (map title (resources (template self)))"
      and "role self = Some Role_resource"
  shows "\<exists>self'. create_policy self = Inr self' \<and>
           resources (template self') =
             resources (template self) @ [Policy_resource (get_fqn self (name self))] \<and>
           outputs (template self') = outputs (template self) @ [Output ''PolicyName'' (Ref ''Policy'')] \<and>
           conditions (template self') = conditions (template self) \<and>
           role_arn self' = role_arn self \<and> variables self' = variables self"
  using assms
  by (simp add: create_policy_def Let_def new_resource_def literal_titles add_resource_def
      add_output_def Policy_resource_def generate_policy_statements_def Role_resource_def)






section \<open>The Postgres RDS blueprint: conditions, graph and outputs\<close>

lemma add_condition_leaf:
  "operands c = [] \<Longrightarrow> add_condition n c t = Inr (t\<lparr>conditions := AList.update n c (conditions t)\<rparr>)"
  by (simp add: add_condition_def)

lemma add_condition_defined:
  assumes "set (operands c) \<subseteq> fst ` set (conditions t)"
  shows "add_condition n c t = Inr (t\<lparr>conditions := AList.update n c (conditions t)\<rparr>)"
proof -
  from assms have "filter (\<lambda>x. x \<notin> set (map fst (conditions t))) (operands c) = []"
    by (auto simp: filter_empty_conv)
  then show ?thesis by (simp add: add_condition_def)
qed

lemma create_conditions_returns:
  "\<exists>b. create_conditions self = Inr b \<and> resources (template b) = resources (template self) \<and>
       outputs (template b) = outputs (template self) \<and> name b = name self \<and>
       conditions (template b) =
         AList.update ''CreateInternalHostname''
           (And [Condition ''HasInternalZone'', Condition ''HasInternalZoneName'',
                 Condition ''HasInternalHostname''])
           (AList.update ''HasInternalHostname''
              (Not_cond (Equals (Ref ''InternalHostname'') (Str '''')))
              (AList.update ''HasInternalZoneName''
                 (Not_cond (Equals (Ref ''InternalZoneName'') (Str '''')))
                 (AList.update ''HasInternalZone''
                    (Not_cond (Equals (Ref ''InternalZoneId'') (Str '''')))
                    (conditions (template self)))))"
  by (simp add: create_conditions_def add_condition_leaf add_condition_defined AList.dom_update)

lemma postgres_names_distinct:
  "RDS_SG_NAME n \<noteq> RDS_SUBNET_GROUP n"
  "RDS_INSTANCE_NAME n \<noteq> RDS_SUBNET_GROUP n"
  "RDS_INSTANCE_NAME n \<noteq> RDS_SG_NAME n"
  "RDS_INSTANCE_NAME n @ ''DnsRecord'' \<noteq> RDS_SUBNET_GROUP n"
  "RDS_INSTANCE_NAME n @ ''DnsRecord'' \<noteq> RDS_SG_NAME n"
  "RDS_INSTANCE_NAME n @ ''DnsRecord'' \<noteq> RDS_INSTANCE_NAME n"
proof -
  show "RDS_SG_NAME n \<noteq> RDS_SUBNET_GROUP n"
  proof
    assume "RDS_SG_NAME n = RDS_SUBNET_GROUP n"
    then have "length (RDS_SG_NAME n) = length (RDS_SUBNET_GROUP n)" by simp
    then show False by (simp add: RDS_SG_NAME_def RDS_SUBNET_GROUP_def)
  qed
  show "RDS_INSTANCE_NAME n \<noteq> RDS_SUBNET_GROUP n"
  proof
    assume "RDS_INSTANCE_NAME n = RDS_SUBNET_GROUP n"
    then have "count_list (RDS_INSTANCE_NAME n) CHR ''b'' = count_list (RDS_SUBNET_GROUP n) CHR ''b''"
      by simp
    then show False by (simp add: RDS_INSTANCE_NAME_def RDS_SUBNET_GROUP_def)
  qed
  show "RDS_INSTANCE_NAME n \<noteq> RDS_SG_NAME n"
  proof
    assume "RDS_INSTANCE_NAME n = RDS_SG_NAME n"
    then have "length (RDS_INSTANCE_NAME n) = length (RDS_SG_NAME n)" by simp
    then show False by (simp add: RDS_INSTANCE_NAME_def RDS_SG_NAME_def)
  qed
  show "RDS_INSTANCE_NAME n @ ''DnsRecord'' \<noteq> RDS_SUBNET_GROUP n"
  proof
    assume "RDS_INSTANCE_NAME n @ ''DnsRecord'' = RDS_SUBNET_GROUP n"
    then have "length (RDS_INSTANCE_NAME n @ ''DnsRecord'') = length (RDS_SUBNET_GROUP n)" by simp
    then show False by (simp add: RDS_INSTANCE_NAME_def RDS_SUBNET_GROUP_def)
  qed
  show "RDS_INSTANCE_NAME n @ ''DnsRecord'' \<noteq> RDS_SG_NAME n"
  proof
    assume "RDS_INSTANCE_NAME n @ ''DnsRecord'' = RDS_SG_NAME n"
    then have "length (RDS_INSTANCE_NAME n @ ''DnsRecord'') = length (RDS_SG_NAME n)" by simp
    then show False by (simp add: RDS_INSTANCE_NAME_def RDS_SG_NAME_def)
  qed
  show "RDS_INSTANCE_NAME n @ ''DnsRecord'' \<noteq> RDS_INSTANCE_NAME n"
    by simp
qed

lemma validate_title_append:
  "validate_title (a @ b) \<longleftrightarrow> validate_title a \<and> validate_title b"
  by (simp add: validate_title_def)

lemma postgres_literal_titles:
  "validate_title ''SubnetGroup''" "validate_title ''RdsSG''" "validate_title ''PostgresRDS''"
  "validate_title ''DnsRecord''"
  by code_simp+

lemma postgres_titles:
  "validate_title (RDS_SUBNET_GROUP n) \<longleftrightarrow> validate_title n"
  "validate_title (RDS_SG_NAME n) \<longleftrightarrow> validate_title n"
  "validate_title (RDS_INSTANCE_NAME n) \<longleftrightarrow> validate_title n"
  "validate_title (RDS_INSTANCE_NAME n @ ''DnsRecord'') \<longleftrightarrow> validate_title n"
  by (simp_all only: RDS_SUBNET_GROUP_def RDS_SG_NAME_def RDS_INSTANCE_NAME_def
      validate_title_append postgres_literal_titles simp_thms)

lemma create_subnet_group_ok:
  assumes "validate_title (name self)"
      and "RDS_SUBNET_GROUP (name self) \<notin> set (map title (resources (template self)))"
  shows "\<exists>b. create_subnet_group self = Inr b \<and> name b = name self \<and>
           resources (template b) = resources (template self) @
             [Resource (RDS_SUBNET_GROUP (name self)) RDS_DBSubnetGroup
                [(''DBSubnetGroupDescription'', Str (name self @ '' VPC subnet group.'')),
                 (''SubnetIds'', Ref ''PrivateSubnets'')]] \<and>
           outputs (template b) = outputs (template self) \<and>
           conditions (template b) = conditions (template self)"
  using assms by (simp add: create_subnet_group_def new_resource_def postgres_titles add_resource_def)

lemma create_security_group_ok:
  assumes "validate_title (name self)"
      and "RDS_SG_NAME (name self) \<notin> set (map title (resources (template self)))"
  shows "\<exists>b. create_security_group self = Inr b \<and> name b = name self \<and>
           resources (template b) = resources (template self) @
             [Resource (RDS_SG_NAME (name self)) EC2_SecurityGroup
                [(''GroupDescription'', Str (RDS_SG_NAME (name self) @ '' RDS security group'')),
                 (''VpcId'', Ref ''VpcId'')]] \<and>
           outputs (template b) =
             outputs (template self) @ [Output ''SecurityGroup'' (Ref (RDS_SG_NAME (name self)))] \<and>
           conditions (template b) = conditions (template self)"
  using assms
  by (simp add: create_security_group_def Let_def new_resource_def postgres_titles
      add_resource_def add_output_def)

lemma create_rds_ok:
  assumes "validate_title (name self)"
      and "RDS_INSTANCE_NAME (name self) \<notin> set (map title (resources (template self)))"
      and "RDS_INSTANCE_NAME (name self) @ ''DnsRecord'' \<notin> set (map title (resources (template self)))"
  shows "\<exists>b. create_rds self = Inr b \<and> name b = name self \<and>
           resources (template b) = resources (template self) @
             [DBInstance_resource (name self), DnsRecord_resource (name self)] \<and>
           outputs (template b) =
             outputs (template self) @ [DBAddress_output (name self), DBCname_output (name self)] \<and>
           conditions (template b) = conditions (template self)"
  using assms
  by (simp add: create_rds_def Let_def new_resource_def postgres_titles add_resource_def
      add_output_def DBInstance_resource_def
      DnsRecord_resource_def DBAddress_output_def DBCname_output_def Resource_def Output_def)

lemma PostgresRDS_create_template_ok:
  assumes fresh: "template self = fresh_template"
      and valid: "validate_title (name self)"
  shows "\<exists>b. PostgresRDS_create_template self = Inr b \<and>
           resources (template b) = postgres_resources (name self) \<and>
           outputs (template b) = postgres_outputs (name self) \<and>
           conditions (template b) = postgres_conditions"
proof -
  from create_conditions_returns [of self] obtain s1 where
    s1: "create_conditions self = Inr s1" "resources (template s1) = []"
      "outputs (template s1) = []" "name s1 = name self"
      "conditions (template s1) = postgres_conditions"
    by (auto simp: fresh fresh_template_def postgres_conditions_def)
  from create_subnet_group_ok [of s1] s1 valid obtain s2 where
    s2: "create_subnet_group s1 = Inr s2" "name s2 = name self"
      "resources (template s2) = take 1 (postgres_resources (name self))"
      "outputs (template s2) = []" "conditions (template s2) = postgres_conditions"
    by (auto simp: postgres_resources_def)
  have "validate_title (name s2)"
    "RDS_SG_NAME (name s2) \<notin> set (map title (resources (template s2)))"
    by (simp_all add: s2 valid postgres_resources_def postgres_names_distinct)
  from create_security_group_ok [OF this] s2 obtain s3 where
    s3: "create_security_group s2 = Inr s3" "name s3 = name self"
      "resources (template s3) = take 2 (postgres_resources (name self))"
      "outputs (template s3) = take 1 (postgres_outputs (name self))"
      "conditions (template s3) = postgres_conditions"
    by (auto simp: postgres_resources_def postgres_outputs_def)
  have "validate_title (name s3)"
    "RDS_INSTANCE_NAME (name s3) \<notin> set (map title (resources (template s3)))"
    "RDS_INSTANCE_NAME (name s3) @ ''DnsRecord'' \<notin> set (map title (resources (template s3)))"
    by (simp_all add: s3 valid postgres_resources_def postgres_names_distinct)
  from create_rds_ok [OF this] s3 obtain b where
    b: "create_rds s3 = Inr b"
      "resources (template b) = postgres_resources (name self)"
      "outputs (template b) = postgres_outputs (name self)"
      "conditions (template b) = postgres_conditions"
    by (auto simp: postgres_resources_def postgres_outputs_def)
  from s1(1) s2(1) s3(1) b(1) have "PostgresRDS_create_template self = Inr b"
    by (simp add: PostgresRDS_create_template_def)
  with b show ?thesis by blast
qed

lemma PostgresRDS_create_template_invalid_name:
  assumes "\<not> validate_title (name self)"
  shows "PostgresRDS_create_template self = Inl (ValueError (RDS_SUBNET_GROUP (name self)))"
proof -
  from create_conditions_returns [of self] obtain s1 where
    s1: "create_conditions self = Inr s1" "name s1 = name self"
    by blast
  from assms s1(2) have "create_subnet_group s1 = Inl (ValueError (RDS_SUBNET_GROUP (name self)))"
    by (simp add: create_subnet_group_def new_resource_def postgres_titles)
  with s1(1) show ?thesis by (simp add: PostgresRDS_create_template_def)
qed

lemma CreateInternalHostname_value:
  "eval_conditions (map_of (parameters vars)) postgres_conditions Map.empty ''CreateInternalHostname'' =
     Some (InternalZoneId vars \<noteq> [] \<and> InternalZoneName vars \<noteq> [] \<and> InternalHostname vars \<noteq> [])"
  by (simp add: postgres_conditions_def parameters_def operand_value_def)

lemma postgres_kinds:
  "filter (\<lambda>r. kind r = Route53_RecordSetType) (postgres_resources n) = [DnsRecord_resource n]"
  "filter (\<lambda>r. kind r = RDS_DBInstance) (postgres_resources n) = [DBInstance_resource n]"
  by (simp_all add: postgres_resources_def DnsRecord_resource_def DBInstance_resource_def)

lemma postgres_outputs_named:
  "filter (\<lambda>out. output_name out = ''DBCname'') (postgres_outputs n) = [DBCname_output n]"
  "filter (\<lambda>out. output_name out = ''DBAddress'') (postgres_outputs n) = [DBAddress_output n]"
  by (simp_all add: postgres_outputs_def DBCname_output_def DBAddress_output_def)

lemma PostgresRDS_fresh: "template (PostgresRDS n fqn vars) = fresh_template"
  "name (PostgresRDS n fqn vars) = n"
  by (simp_all add: PostgresRDS_def)

text \<open>
  Claim C6 (condition DAG by construction).  \<^verbatim>\<open>create_conditions\<close> returns on every
  template, so no registration fails with \<^verbatim>\<open>UndefinedCondition\<close>.  On a fresh
  template the registry is \<^verbatim>\<open>HasInternalZone\<close>, \<^verbatim>\<open>HasInternalZoneName\<close>,
  \<^verbatim>\<open>HasInternalHostname\<close>, \<^verbatim>\<open>CreateInternalHostname\<close> in this order, the last one
  being the conjunction of the three before it, and every operand of a registered
  condition is registered at an earlier position.
\<close>

theorem operands_registered_first:
  "(\<exists>b. create_conditions self = Inr b) \<and>
   (\<exists>b. create_conditions (PostgresRDS n fqn vars) = Inr b \<and>
        map fst (conditions (template b)) =
          [''HasInternalZone'', ''HasInternalZoneName'', ''HasInternalHostname'',
           ''CreateInternalHostname''] \<and>
        map_of (conditions (template b)) ''CreateInternalHostname'' =
          Some (And [Condition ''HasInternalZone'', Condition ''HasInternalZoneName'',
                     Condition ''HasInternalHostname'']) \<and>
        registered_before [] (conditions (template b)))"
proof
  from create_conditions_returns [of self] show "\<exists>b. create_conditions self = Inr b" by blast
next
  from create_conditions_returns [of "PostgresRDS n fqn vars"] obtain b where
    b: "create_conditions (PostgresRDS n fqn vars) = Inr b"
      "conditions (template b) = postgres_conditions"
    by (auto simp: PostgresRDS_fresh fresh_template_def postgres_conditions_def)
  have "map fst postgres_conditions =
          [''HasInternalZone'', ''HasInternalZoneName'', ''HasInternalHostname'',
           ''CreateInternalHostname'']"
       "map_of postgres_conditions ''CreateInternalHostname'' =
          Some (And [Condition ''HasInternalZone'', Condition ''HasInternalZoneName'',
                     Condition ''HasInternalHostname''])"
       "registered_before [] postgres_conditions"
    by (simp_all add: postgres_conditions_def)
  with b show "\<exists>b. create_conditions (PostgresRDS n fqn vars) = Inr b \<and>
        map fst (conditions (template b)) =
          [''HasInternalZone'', ''HasInternalZoneName'', ''HasInternalHostname'',
           ''CreateInternalHostname''] \<and>
        map_of (conditions (template b)) ''CreateInternalHostname'' =
          Some (And [Condition ''HasInternalZone'', Condition ''HasInternalZoneName'',
                     Condition ''HasInternalHostname'']) \<and>
        registered_before [] (conditions (template b))"
    by simp
qed

text \<open>
  Claim C4 (render-time elision of the DNS record).  For a blueprint with an alphanumeric
  name (the resource titles are built from it) and for every variable assignment,
  \<^verbatim>\<open>PostgresRDS.create_template\<close> returns, and its graph holds exactly one
  \<^verbatim>\<open>RecordSetType\<close> resource and exactly one \<^verbatim>\<open>DBCname\<close> output, referring to that
  resource, both owned by the condition \<^verbatim>\<open>CreateInternalHostname\<close>.  That condition
  evaluates to true exactly when \<^verbatim>\<open>InternalZoneId\<close>, \<^verbatim>\<open>InternalZoneName\<close> and
  \<^verbatim>\<open>InternalHostname\<close> are all non-empty; otherwise (for instance with only two of
  them supplied) the resource and the output are in the graph and inactive.
\<close>

theorem dns_record_render_time_elision:
  assumes "validate_title n"
  shows "\<exists>b d out. PostgresRDS_create_template (PostgresRDS n fqn vars) = Inr b \<and>
     resources_of_kind Route53_RecordSetType (template b) = [d] \<and>
     resource_condition d = Some ''CreateInternalHostname'' \<and>
     outputs_named ''DBCname'' (template b) = [out] \<and>
     output_condition out = Some ''CreateInternalHostname'' \<and>
     output_value out = Ref (title d) \<and>
     condition_value vars (template b) ''CreateInternalHostname'' =
       Some (InternalZoneId vars \<noteq> [] \<and> InternalZoneName vars \<noteq> [] \<and>
             InternalHostname vars \<noteq> []) \<and>
     resource_active vars (template b) d =
       (InternalZoneId vars \<noteq> [] \<and> InternalZoneName vars \<noteq> [] \<and> InternalHostname vars \<noteq> []) \<and>
     output_active vars (template b) out =
       (InternalZoneId vars \<noteq> [] \<and> InternalZoneName vars \<noteq> [] \<and> InternalHostname vars \<noteq> [])"
proof -
  from PostgresRDS_create_template_ok [of "PostgresRDS n fqn vars"] assms obtain b where
    b: "PostgresRDS_create_template (PostgresRDS n fqn vars) = Inr b"
      "resources (template b) = postgres_resources n"
      "outputs (template b) = postgres_outputs n"
      "conditions (template b) = postgres_conditions"
    by (auto simp: PostgresRDS_fresh)
  have c: "condition_value vars (template b) ''CreateInternalHostname'' =
       Some (InternalZoneId vars \<noteq> [] \<and> InternalZoneName vars \<noteq> [] \<and>
             InternalHostname vars \<noteq> [])"
    by (simp only: condition_value_def b(4) CreateInternalHostname_value)
  have d: "resource_condition (DnsRecord_resource n) = Some ''CreateInternalHostname''"
    "title (DnsRecord_resource n) = RDS_INSTANCE_NAME n @ ''DnsRecord''"
    by (simp_all add: DnsRecord_resource_def)
  have out: "output_condition (DBCname_output n) = Some ''CreateInternalHostname''"
    "output_value (DBCname_output n) = Ref (RDS_INSTANCE_NAME n @ ''DnsRecord'')"
    by (simp_all add: DBCname_output_def)
  have "resources_of_kind Route53_RecordSetType (template b) = [DnsRecord_resource n]"
    "outputs_named ''DBCname'' (template b) = [DBCname_output n]"
    by (simp_all add: resources_of_kind_def outputs_named_def b postgres_kinds postgres_outputs_named)
  moreover have "resource_active vars (template b) (DnsRecord_resource n) =
       (InternalZoneId vars \<noteq> [] \<and> InternalZoneName vars \<noteq> [] \<and> InternalHostname vars \<noteq> [])"
    by (simp add: resource_active_def d c)
  moreover have "output_active vars (template b) (DBCname_output n) =
       (InternalZoneId vars \<noteq> [] \<and> InternalZoneName vars \<noteq> [] \<and> InternalHostname vars \<noteq> [])"
    by (simp add: output_active_def out c)
  ultimately show ?thesis using b(1) c d out by simp
qed

theorem dns_record_render_time_elision_witness:
  "\<exists>b d out. PostgresRDS_create_template (PostgresRDS ''db'' id example_postgres_variables) = Inr b \<and>
     resources_of_kind Route53_RecordSetType (template b) = [d] \<and>
     resource_condition d = Some ''CreateInternalHostname'' \<and>
     outputs_named ''DBCname'' (template b) = [out] \<and>
     output_condition out = Some ''CreateInternalHostname'' \<and>
     output_value out = Ref (title d) \<and>
     condition_value example_postgres_variables (template b) ''CreateInternalHostname'' = Some False \<and>
     \<not> resource_active example_postgres_variables (template b) d \<and>
     \<not> output_active example_postgres_variables (template b) out"
proof -
  have "validate_title ''db''" by code_simp
  from dns_record_render_time_elision [OF this, of id example_postgres_variables]
  show ?thesis by (simp add: example_postgres_variables_def)
qed

text \<open>
  Claim C10 (unconditional endpoint output).  For a blueprint with an alphanumeric name
  and for every variable assignment, \<^verbatim>\<open>PostgresRDS.create_template\<close> returns, and
  its graph holds exactly one
  DB instance and exactly one \<^verbatim>\<open>DBAddress\<close> output, whose value is the
  \<^verbatim>\<open>Endpoint.Address\<close> attribute of that instance and which has no owning condition: it
  is active whatever the internal-zone variables are.  The \<^verbatim>\<open>DBCname\<close> output, by
  contrast, is owned by \<^verbatim>\<open>CreateInternalHostname\<close>.
\<close>

theorem db_address_unconditional:
  assumes "validate_title n"
  shows "\<exists>b db out cname. PostgresRDS_create_template (PostgresRDS n fqn vars) = Inr b \<and>
     resources_of_kind RDS_DBInstance (template b) = [db] \<and>
     outputs_named ''DBAddress'' (template b) = [out] \<and>
     output_value out = GetAtt (title db) ''Endpoint.Address'' \<and>
     output_condition out = None \<and>
     output_active vars (template b) out \<and>
     outputs_named ''DBCname'' (template b) = [cname] \<and>
     output_condition cname = Some ''CreateInternalHostname''"
proof -
  from PostgresRDS_create_template_ok [of "PostgresRDS n fqn vars"] assms obtain b where
    b: "PostgresRDS_create_template (PostgresRDS n fqn vars) = Inr b"
      "resources (template b) = postgres_resources n"
      "outputs (template b) = postgres_outputs n"
    by (auto simp: PostgresRDS_fresh)
  have "resources_of_kind RDS_DBInstance (template b) = [DBInstance_resource n]"
    "outputs_named ''DBAddress'' (template b) = [DBAddress_output n]"
    "outputs_named ''DBCname'' (template b) = [DBCname_output n]"
    by (simp_all add: resources_of_kind_def outputs_named_def b postgres_kinds postgres_outputs_named)
  moreover have "output_value (DBAddress_output n) =
      GetAtt (title (DBInstance_resource n)) ''Endpoint.Address''"
    "output_condition (DBAddress_output n) = None"
    "output_active vars (template b) (DBAddress_output n)"
    "output_condition (DBCname_output n) = Some ''CreateInternalHostname''"
    by (simp_all add: DBAddress_output_def DBInstance_resource_def output_active_def
        DBCname_output_def)
  ultimately show ?thesis using b(1) by simp
qed

theorem db_address_unconditional_witness:
  "\<exists>b db out cname.
     PostgresRDS_create_template (PostgresRDS ''db'' id example_postgres_variables) = Inr b \<and>
     resources_of_kind RDS_DBInstance (template b) = [db] \<and>
     outputs_named ''DBAddress'' (template b) = [out] \<and>
     output_value out = GetAtt (title db) ''Endpoint.Address'' \<and>
     output_condition out = None \<and>
     output_active example_postgres_variables (template b) out \<and>
     outputs_named ''DBCname'' (template b) = [cname] \<and>
     output_condition cname = Some ''CreateInternalHostname''"
proof -
  have "validate_title ''db''" by code_simp
  from db_address_unconditional [OF this, of id example_postgres_variables]
  show ?thesis .
qed

section \<open>The scheduler blueprint: permissions\<close>

lemma cf_safe_name_examples:
  "cf_safe_name ''a-b'' = ''AB''"
  "cf_safe_name ''a_b'' = ''AB''"
  "cf_safe_name ''a'' = ''A''"
  "cf_safe_name ''my-function'' = ''MyFunction''"
  "cf_safe_name ''other.function'' = ''OtherFunction''"
  by code_simp+

lemma alphanumeric_upper: "alphanumeric c \<Longrightarrow> alphanumeric (upper c)"
proof -
  assume a: "alphanumeric c"
  show ?thesis
  proof (cases "97 \<le> (of_char c :: nat) \<and> (of_char c :: nat) \<le> 122")
    case True
    then have u: "upper c = char_of ((of_char c :: nat) - 32)"
      by (simp add: upper_def Let_def)
    from True have "(of_char c :: nat) - 32 < 256" by arith
    then have eq: "(of_char (char_of ((of_char c :: nat) - 32)) :: nat) = of_char c - 32"
      by simp
    from True have "65 \<le> (of_char c :: nat) - 32 \<and> (of_char c :: nat) - 32 \<le> 90"
      by arith
    then show ?thesis
      unfolding u alphanumeric_def Let_def eq by blast
  next
    case False
    then have "upper c = c"
      unfolding upper_def Let_def by (rule if_not_P)
    with a show ?thesis by simp
  qed
qed

lemma findall_alphanumeric_runs:
  "list_all (list_all alphanumeric) (findall_alphanumeric s)"
proof (induction s rule: findall_alphanumeric.induct)
  case 1
  then show ?case by simp
next
  case (2 c cs)
  have "list_all alphanumeric (takeWhile alphanumeric cs)"
    by (auto simp: list_all_iff dest: set_takeWhileD)
  with 2 show ?case by simp
qed

lemma uppercase_first_letter_alphanumeric:
  "list_all alphanumeric r \<Longrightarrow> list_all alphanumeric (uppercase_first_letter r)"
  by (cases r) (simp_all add: alphanumeric_upper)

lemma cf_safe_name_alphanumeric: "validate_title (cf_safe_name s)"
  using findall_alphanumeric_runs [of s]
  by (auto simp: validate_title_def cf_safe_name_def list_all_iff
      intro: uppercase_first_letter_alphanumeric [unfolded list_all_iff, rule_format])

text \<open>
  The name of a permission is alphanumeric whatever the target's Id, so the title check
  of the \<^verbatim>\<open>awslambda.Permission\<close> constructor never refuses it.
\<close>

lemma Permission_title_valid:
  "validate_title (title (Permission (cf_safe_name i) arn src))"
proof -
  have p: "validate_title ''PermToInvokeFunctionFor''" by code_simp
  have "title (Permission (cf_safe_name i) arn src) = ''PermToInvokeFunctionFor'' @ cf_safe_name i"
    unfolding Permission_def by (rule Resource_sel)
  then show ?thesis
    by (simp only: validate_title_append p cf_safe_name_alphanumeric simp_thms)
qed

lemma update_fresh_key:
  "k \<notin> set (map fst d) \<Longrightarrow> AList.update k v d = d @ [(k, v)]"
  by (induction d) auto

lemma gather_fresh_keys:
  assumes "distinct (map fst d @ map (\<lambda>t. cf_safe_name (Id_target t)) (lambda_targets ts))"
  shows "gather_lambda_arns ts d =
           d @ map (\<lambda>t. (cf_safe_name (Id_target t), Arn t)) (lambda_targets ts)"
  using assms
proof (induction ts arbitrary: d)
  case Nil
  then show ?case by (simp add: lambda_targets_def)
next
  case (Cons t ts)
  show ?case
  proof (cases "prefix ''arn:aws:lambda:'' (Arn t)")
    case True
    with Cons.prems have k: "cf_safe_name (Id_target t) \<notin> set (map fst d)"
      and d: "distinct (map fst (d @ [(cf_safe_name (Id_target t), Arn t)]) @
                map (\<lambda>t. cf_safe_name (Id_target t)) (lambda_targets ts))"
      by (auto simp: lambda_targets_def)
    from Cons.IH [OF d] True k show ?thesis
      by (simp add: update_fresh_key lambda_targets_def)
  next
    case False
    with Cons.prems have "distinct (map fst d @
        map (\<lambda>t. cf_safe_name (Id_target t)) (lambda_targets ts))"
      by (simp add: lambda_targets_def)
    from Cons.IH [OF this] False show ?thesis by (simp add: lambda_targets_def)
  qed
qed

lemma add_permissions_ok:
  assumes "distinct (map fst items)"
      and "list_all (\<lambda>k. ''PermToInvokeFunctionFor'' @ k \<notin> set (map title (resources t))) (map fst items)"
  shows "add_permissions src items t =
           Inr (t\<lparr>resources := resources t @ map (\<lambda>(k, v). Permission k v src) items\<rparr>)"
  using assms
proof (induction items arbitrary: t)
  case Nil
  then show ?case by simp
next
  case (Cons item items)
  obtain k v where item: "item = (k, v)" by (cases item)
  let ?p = "Permission k v src"
  let ?t = "t\<lparr>resources := resources t @ [?p]\<rparr>"
  from Cons.prems item have free: "title ?p \<notin> set (map title (resources t))"
    by (simp add: Permission_def)
  then have step: "add_resource ?p t = Inr ?t" by (simp add: add_resource_def)
  from Cons.prems item have d: "distinct (map fst items)" and nk: "k \<notin> set (map fst items)"
    by simp_all
  from Cons.prems item nk
  have "list_all (\<lambda>k'. ''PermToInvokeFunctionFor'' @ k' \<notin> set (map title (resources ?t)))
          (map fst items)"
    by (auto simp: list_all_iff Permission_def)
  from Cons.IH [OF d this] step item show ?case by simp
qed

lemma gather_distinct:
  "distinct (map fst d) \<Longrightarrow> distinct (map fst (gather_lambda_arns ts d))"
  by (induction ts arbitrary: d) (simp_all add: AList.distinct_update)

lemma create_scheduler_ok:
  assumes fresh: "template self = fresh_template"
      and free: "list_all (\<lambda>k. ''PermToInvokeFunctionFor'' @ k \<noteq> rule_title (CloudwatchEventsRule (variables self)))
                   (map fst (gather_lambda_arns
                      (case Targets (CloudwatchEventsRule (variables self)) of None \<Rightarrow> [] | Some ts \<Rightarrow> ts) []))"
  shows "\<exists>b. create_scheduler self = Inr b \<and>
           resources (template b) =
             rule_resource (CloudwatchEventsRule (variables self)) #
             map (\<lambda>(k, v). Permission k v (GetAtt (rule_title (CloudwatchEventsRule (variables self))) ''Arn''))
               (gather_lambda_arns
                  (case Targets (CloudwatchEventsRule (variables self)) of None \<Rightarrow> [] | Some ts \<Rightarrow> ts) []) \<and>
           outputs (template b) = [] \<and> conditions (template b) = []"
proof -
  define rule where "rule = CloudwatchEventsRule (variables self)"
  define items where
    "items = gather_lambda_arns (case Targets rule of None \<Rightarrow> [] | Some ts \<Rightarrow> ts) []"
  define t1 where "t1 = (template self)\<lparr>resources := [rule_resource rule]\<rparr>"
  have r: "add_resource (rule_resource rule) (template self) = Inr t1"
    by (simp add: add_resource_def fresh fresh_template_def t1_def)
  have t1: "resources t1 = [rule_resource rule]" "outputs t1 = []" "conditions t1 = []"
    by (simp_all add: t1_def fresh fresh_template_def)
  have d: "distinct (map fst items)"
    unfolding items_def by (rule gather_distinct) simp
  from free have "list_all (\<lambda>k. ''PermToInvokeFunctionFor'' @ k \<notin> set (map title (resources t1)))
      (map fst items)"
    by (simp add: t1 rule_resource_def items_def rule_def)
  from add_permissions_ok [OF d this, of "GetAtt (rule_title rule) ''Arn''"] r t1
  show ?thesis
    by (simp add: create_scheduler_def Let_def rule_def [symmetric] items_def [symmetric])
qed

lemma gather_keys:
  "fst ` set (gather_lambda_arns ts d) =
     fst ` set d \<union> (\<lambda>t. cf_safe_name (Id_target t)) ` set (lambda_targets ts)"
proof (induction ts arbitrary: d)
  case Nil
  then show ?case by (simp add: lambda_targets_def)
next
  case (Cons t ts)
  show ?case
  proof (cases "prefix ''arn:aws:lambda:'' (Arn t)")
    case True
    then have "fst ` set (gather_lambda_arns (t # ts) d) =
        fst ` set (AList.update (cf_safe_name (Id_target t)) (Arn t) d) \<union>
        (\<lambda>t. cf_safe_name (Id_target t)) ` set (lambda_targets ts)"
      by (simp add: Cons.IH)
    also have "\<dots> = fst ` set d \<union>
        (\<lambda>t. cf_safe_name (Id_target t)) ` set (lambda_targets (t # ts))"
      using True by (auto simp: AList.dom_update lambda_targets_def)
    finally show ?thesis .
  next
    case False
    then show ?thesis by (simp add: Cons.IH lambda_targets_def)
  qed
qed

lemma add_permissions_title_clash:
  assumes "distinct (map fst items)"
      and "T \<in> set (map title (resources t))"
      and "list_all (\<lambda>k. ''PermToInvokeFunctionFor'' @ k \<in> set (map title (resources t)) \<longrightarrow>
                         ''PermToInvokeFunctionFor'' @ k = T) (map fst items)"
      and "T \<in> set (map (\<lambda>k. ''PermToInvokeFunctionFor'' @ k) (map fst items))"
  shows "add_permissions src items t = Inl (DuplicateResourceName T)"
  using assms
proof (induction items arbitrary: t)
  case Nil
  then show ?case by simp
next
  case (Cons item items)
  obtain k v where item: "item = (k, v)" by (cases item)
  show ?case
  proof (cases "''PermToInvokeFunctionFor'' @ k \<in> set (map title (resources t))")
    case True
    with Cons.prems(3) item have "''PermToInvokeFunctionFor'' @ k = T" by simp
    with True item show ?thesis by (simp add: add_resource_def Permission_def)
  next
    case False
    let ?t = "t\<lparr>resources := resources t @ [Permission k v src]\<rparr>"
    from False have step: "add_resource (Permission k v src) t = Inr ?t"
      by (simp add: add_resource_def Permission_def)
    from False Cons.prems(2) have ne: "''PermToInvokeFunctionFor'' @ k \<noteq> T" by auto
    from Cons.prems(1) item have d: "distinct (map fst items)" and nk: "k \<notin> set (map fst items)"
      by simp_all
    from Cons.prems(2) have T: "T \<in> set (map title (resources ?t))" by simp
    from Cons.prems(3) item nk
    have c: "list_all (\<lambda>k'. ''PermToInvokeFunctionFor'' @ k' \<in> set (map title (resources ?t)) \<longrightarrow>
                          ''PermToInvokeFunctionFor'' @ k' = T) (map fst items)"
      by (auto simp: list_all_iff Permission_def)
    from Cons.prems(4) item ne
    have "T \<in> set (map (\<lambda>k. ''PermToInvokeFunctionFor'' @ k) (map fst items))" by auto
    from Cons.IH [OF d T c this] step item show ?thesis by simp
  qed
qed

lemma create_scheduler_title_clash:
  assumes fresh: "template self = fresh_template"
      and ts: "Targets (CloudwatchEventsRule (variables self)) = Some ts"
      and clash: "rule_title (CloudwatchEventsRule (variables self)) \<in>
             set (map (\<lambda>t. ''PermToInvokeFunctionFor'' @ cf_safe_name (Id_target t)) (lambda_targets ts))"
  shows "create_scheduler self =
           Inl (DuplicateResourceName (rule_title (CloudwatchEventsRule (variables self))))"
proof -
  define rule where "rule = CloudwatchEventsRule (variables self)"
  define items where "items = gather_lambda_arns ts []"
  define t1 where "t1 = (template self)\<lparr>resources := [rule_resource rule]\<rparr>"
  have r: "add_resource (rule_resource rule) (template self) = Inr t1"
    by (simp add: add_resource_def fresh fresh_template_def t1_def)
  have t1: "map title (resources t1) = [rule_title rule]"
    by (simp add: t1_def rule_resource_def)
  have d: "distinct (map fst items)"
    unfolding items_def by (rule gather_distinct) simp
  have keys: "set (map fst items) = (\<lambda>t. cf_safe_name (Id_target t)) ` set (lambda_targets ts)"
    unfolding items_def by (simp add: gather_keys)
  have T: "rule_title rule \<in> set (map title (resources t1))" by (simp add: t1)
  have c: "list_all (\<lambda>k. ''PermToInvokeFunctionFor'' @ k \<in> set (map title (resources t1)) \<longrightarrow>
                         ''PermToInvokeFunctionFor'' @ k = rule_title rule) (map fst items)"
    by (simp add: t1 list_all_iff)
  from clash have "rule_title rule \<in>
      (\<lambda>k. ''PermToInvokeFunctionFor'' @ k) ` set (map fst items)"
    unfolding keys rule_def by (auto simp: image_image)
  then have "rule_title rule \<in> set (map (\<lambda>k. ''PermToInvokeFunctionFor'' @ k) (map fst items))"
    by (simp add: image_image)
  from add_permissions_title_clash [OF d T c this, of "GetAtt (rule_title rule) ''Arn''"] r ts
  show ?thesis
    by (simp add: create_scheduler_def Let_def rule_def [symmetric] items_def [symmetric])
qed

text \<open>
  Claim C2, as amended (fan-out permission wiring).  On a fresh template, for a rule
  whose \<^verbatim>\<open>Targets\<close> are given: when its lambda targets (those whose \<^verbatim>\<open>Arn\<close> starts
  with \<^verbatim>\<open>arn:aws:lambda:\<close>) have pairwise distinct sanitized Ids and its own title is
  not the name of one of their permissions, \<^verbatim>\<open>create_scheduler\<close> returns, and the
  graph is the rule followed by one permission per lambda target, in target order: its
  name is \<^verbatim>\<open>PermToInvokeFunctionFor\<close> followed by the sanitized Id, its
  \<^verbatim>\<open>FunctionName\<close> is the target's \<^verbatim>\<open>Arn\<close> and its \<^verbatim>\<open>SourceArn\<close> is the \<^verbatim>\<open>Arn\<close>
  attribute of the rule; targets without the prefix get no permission.  When the rule's
  title is the name of one of the permissions, \<^verbatim>\<open>create_scheduler\<close> fails with
  \<^verbatim>\<open>DuplicateResourceName\<close> for that title.
\<close>

theorem fan_out_permissions:
  assumes "template self = fresh_template"
      and "Targets (CloudwatchEventsRule (variables self)) = Some ts"
  shows "(distinct (map (\<lambda>t. cf_safe_name (Id_target t)) (lambda_targets ts)) \<and>
          rule_title (CloudwatchEventsRule (variables self)) \<notin>
            set (map (\<lambda>t. ''PermToInvokeFunctionFor'' @ cf_safe_name (Id_target t)) (lambda_targets ts)) \<longrightarrow>
          (\<exists>b. FunctionScheduler_create_template self = Inr b \<and>
             resources (template b) =
               rule_resource (CloudwatchEventsRule (variables self)) #
               resources_of_kind Lambda_Permission (template b) \<and>
             map (\<lambda>r. (title r, property r ''FunctionName'', property r ''SourceArn''))
                 (resources_of_kind Lambda_Permission (template b)) =
               map (\<lambda>t. (''PermToInvokeFunctionFor'' @ cf_safe_name (Id_target t),
                          Some (Str (Arn t)),
                          Some (GetAtt (rule_title (CloudwatchEventsRule (variables self))) ''Arn'')))
                 (lambda_targets ts))) \<and>
         (rule_title (CloudwatchEventsRule (variables self)) \<in>
            set (map (\<lambda>t. ''PermToInvokeFunctionFor'' @ cf_safe_name (Id_target t)) (lambda_targets ts)) \<longrightarrow>
          FunctionScheduler_create_template self =
            Inl (DuplicateResourceName (rule_title (CloudwatchEventsRule (variables self)))))"
proof (intro conjI impI)
  assume "rule_title (CloudwatchEventsRule (variables self)) \<in>
      set (map (\<lambda>t. ''PermToInvokeFunctionFor'' @ cf_safe_name (Id_target t)) (lambda_targets ts))"
  from create_scheduler_title_clash [OF assms this]
  show "FunctionScheduler_create_template self =
      Inl (DuplicateResourceName (rule_title (CloudwatchEventsRule (variables self))))"
    by (simp add: FunctionScheduler_create_template_def)
next
  assume h: "distinct (map (\<lambda>t. cf_safe_name (Id_target t)) (lambda_targets ts)) \<and>
      rule_title (CloudwatchEventsRule (variables self)) \<notin>
        set (map (\<lambda>t. ''PermToInvokeFunctionFor'' @ cf_safe_name (Id_target t)) (lambda_targets ts))"
  define rule where "rule = CloudwatchEventsRule (variables self)"
  have g: "gather_lambda_arns ts [] =
      map (\<lambda>t. (cf_safe_name (Id_target t), Arn t)) (lambda_targets ts)"
    using gather_fresh_keys [of "[]" ts] h by simp
  have "''PermToInvokeFunctionFor'' @ cf_safe_name (Id_target t) \<noteq> rule_title rule"
    if t: "t \<in> set (lambda_targets ts)" for t
  proof
    assume "''PermToInvokeFunctionFor'' @ cf_safe_name (Id_target t) = rule_title rule"
    then have "rule_title rule = ''PermToInvokeFunctionFor'' @ cf_safe_name (Id_target t)"
      by (rule sym)
    then have "rule_title rule \<in>
        (\<lambda>t. ''PermToInvokeFunctionFor'' @ cf_safe_name (Id_target t)) ` set (lambda_targets ts)"
      using t by (rule image_eqI)
    with h show False by (simp add: rule_def)
  qed
  then have "list_all (\<lambda>k. ''PermToInvokeFunctionFor'' @ k \<noteq> rule_title rule)
      (map fst (gather_lambda_arns ts []))"
    by (simp add: g list_all_iff comp_def)
  with create_scheduler_ok [OF assms(1)] assms(2) obtain b where
    b: "create_scheduler self = Inr b"
      "resources (template b) =
         rule_resource rule #
         map (\<lambda>t. Permission (cf_safe_name (Id_target t)) (Arn t) (GetAtt (rule_title rule) ''Arn''))
           (lambda_targets ts)"
    by (auto simp: g rule_def comp_def)
  have k: "resources_of_kind Lambda_Permission (template b) =
      map (\<lambda>t. Permission (cf_safe_name (Id_target t)) (Arn t) (GetAtt (rule_title rule) ''Arn''))
        (lambda_targets ts)"
    by (simp add: resources_of_kind_def b(2) rule_resource_def Permission_def filter_map comp_def)
  show "\<exists>b. FunctionScheduler_create_template self = Inr b \<and>
      resources (template b) =
        rule_resource (CloudwatchEventsRule (variables self)) #
        resources_of_kind Lambda_Permission (template b) \<and>
      map (\<lambda>r. (title r, property r ''FunctionName'', property r ''SourceArn''))
          (resources_of_kind Lambda_Permission (template b)) =
        map (\<lambda>t. (''PermToInvokeFunctionFor'' @ cf_safe_name (Id_target t),
                   Some (Str (Arn t)),
                   Some (GetAtt (rule_title (CloudwatchEventsRule (variables self))) ''Arn'')))
          (lambda_targets ts)"
  proof (intro exI conjI)
    show "FunctionScheduler_create_template self = Inr b"
      using b(1) by (simp add: FunctionScheduler_create_template_def)
    show "resources (template b) =
        rule_resource (CloudwatchEventsRule (variables self)) #
        resources_of_kind Lambda_Permission (template b)"
      by (simp add: k b(2) rule_def)
    show "map (\<lambda>r. (title r, property r ''FunctionName'', property r ''SourceArn''))
            (resources_of_kind Lambda_Permission (template b)) =
          map (\<lambda>t. (''PermToInvokeFunctionFor'' @ cf_safe_name (Id_target t),
                     Some (Str (Arn t)),
                     Some (GetAtt (rule_title (CloudwatchEventsRule (variables self))) ''Arn'')))
            (lambda_targets ts)"
      by (simp add: k comp_def Permission_def property_def rule_def)
  qed
qed

theorem fan_out_permissions_witness:
  "(\<exists>b. FunctionScheduler_create_template
          (FunctionScheduler ''scheduler'' id \<lparr>CloudwatchEventsRule = example_rule\<rparr>) = Inr b \<and>
        resources (template b) =
          rule_resource example_rule # resources_of_kind Lambda_Permission (template b) \<and>
        map (\<lambda>r. (title r, property r ''FunctionName'', property r ''SourceArn''))
            (resources_of_kind Lambda_Permission (template b)) =
          [(''PermToInvokeFunctionForMyFunction'',
            Some (Str ''arn:aws:lambda:us-east-1:123456789012:function:f''),
            Some (GetAtt ''Schedule'' ''Arn'')),
           (''PermToInvokeFunctionForOtherFunction'',
            Some (Str ''arn:aws:lambda:us-east-1:123456789012:function:g''),
            Some (GetAtt ''Schedule'' ''Arn''))]) \<and>
   FunctionScheduler_create_template
     (FunctionScheduler ''scheduler'' id \<lparr>CloudwatchEventsRule = clash_rule\<rparr>) =
   Inl (DuplicateResourceName (rule_title clash_rule))"
  using fan_out_permissions [of "FunctionScheduler ''scheduler'' id \<lparr>CloudwatchEventsRule = example_rule\<rparr>"
      "the (Targets example_rule)"]
    fan_out_permissions [of "FunctionScheduler ''scheduler'' id \<lparr>CloudwatchEventsRule = clash_rule\<rparr>"
      "the (Targets clash_rule)"]
  by (simp add: FunctionScheduler_def example_rule_def clash_rule_def lambda_targets_def
      cf_safe_name_examples)

text \<open>
  Counterexample to claim C2 as stated: a rule titled \<^verbatim>\<open>PermToInvokeFunctionForA\<close>
  with one lambda target whose Id is \<^verbatim>\<open>a\<close>.  The permission's name is the rule's own
  title, \<^verbatim>\<open>add_resource\<close> refuses it, and no permission is synthesized.
\<close>

theorem title_clash_fails:
  "FunctionScheduler_create_template
     (FunctionScheduler ''scheduler'' id \<lparr>CloudwatchEventsRule = clash_rule\<rparr>) =
   Inl (DuplicateResourceName ''PermToInvokeFunctionForA'')"
  by (simp add: FunctionScheduler_create_template_def create_scheduler_def Let_def
      FunctionScheduler_def fresh_template_def clash_rule_def add_resource_def rule_resource_def
      Permission_def cf_safe_name_examples)

text \<open>
  Claim C3 (sanitized-name collision), evaluated on the code: a rule with two lambda
  targets whose Ids \<^verbatim>\<open>a-b\<close> and \<^verbatim>\<open>a_b\<close> both sanitize to \<^verbatim>\<open>AB\<close>.
  \<^verbatim>\<open>create_scheduler\<close> returns without an error and the graph holds a single
  permission, \<^verbatim>\<open>PermToInvokeFunctionForAB\<close>, for the second target's function: the
  first target's entry in \<^verbatim>\<open>aws_lambda_arns\<close> was overwritten.
\<close>

theorem collision_overwrites:
  "\<exists>b. FunctionScheduler_create_template
         (FunctionScheduler ''scheduler'' id \<lparr>CloudwatchEventsRule = collision_rule\<rparr>) = Inr b \<and>
       map (\<lambda>r. (title r, property r ''FunctionName''))
           (resources_of_kind Lambda_Permission (template b)) =
         [(''PermToInvokeFunctionForAB'',
           Some (Str ''arn:aws:lambda:us-east-1:123456789012:function:g''))]"
  by (simp add: FunctionScheduler_create_template_def create_scheduler_def Let_def
      FunctionScheduler_def fresh_template_def collision_rule_def add_resource_def rule_resource_def
      Permission_def cf_safe_name_examples resources_of_kind_def property_def)

section \<open>Variable resolution\<close>

lemma resolve_variable_absent:
  "resolve_variable d None =
     (case default_value d of Some v \<Rightarrow> Inr v | None \<Rightarrow> Inl (MissingRequiredVariable (var_name d)))"
  by (simp add: resolve_variable_def)

lemma resolve_Inr_names:
  "resolve ds s = Inr r \<Longrightarrow> map fst r = map var_name ds"
  by (induction ds arbitrary: r) (auto split: sum.splits)

lemma resolve_Inr_default:
  "resolve ds s = Inr r \<Longrightarrow> d \<in> set ds \<Longrightarrow> s (var_name d) = None \<Longrightarrow>
     \<exists>v. default_value d = Some v \<and> (var_name d, v) \<in> set r"
proof (induction ds arbitrary: r)
  case Nil
  then show ?case by simp
next
  case (Cons x ds)
  from Cons.prems(1) obtain v r' where
    x: "resolve_variable x (s (var_name x)) = Inr v" and r': "resolve ds s = Inr r'"
    and r: "r = (var_name x, v) # r'"
    by (auto split: sum.splits)
  show ?case
  proof (cases "d = x")
    case True
    with x Cons.prems(3) have "default_value d = Some v"
      by (simp add: resolve_variable_absent split: option.splits)
    with True r show ?thesis by simp
  next
    case False
    with Cons.prems(2) have "d \<in> set ds" by simp
    from Cons.IH [OF r' this Cons.prems(3)] r show ?thesis by auto
  qed
qed

lemma resolve_fails:
  "d \<in> set ds \<Longrightarrow> resolve_variable d (s (var_name d)) = Inl e \<Longrightarrow> \<exists>e'. resolve ds s = Inl e'"
  by (induction ds) (auto split: sum.splits)

lemma resolve_first_failure:
  "d \<in> set ds \<Longrightarrow> resolve_variable d (s (var_name d)) = Inl e \<Longrightarrow>
   list_all (\<lambda>d'. \<exists>v. resolve_variable d' (s (var_name d')) = Inr v) (takeWhile (\<lambda>x. x \<noteq> d) ds) \<Longrightarrow>
   resolve ds s = Inl e"
proof (induction ds)
  case Nil
  then show ?case by simp
next
  case (Cons a ds)
  show ?case
  proof (cases "a = d")
    case True
    with Cons.prems(2) show ?thesis by simp
  next
    case False
    with Cons.prems have "d \<in> set ds"
      and a: "\<exists>v. resolve_variable a (s (var_name a)) = Inr v"
      and "list_all (\<lambda>d'. \<exists>v. resolve_variable d' (s (var_name d')) = Inr v)
             (takeWhile (\<lambda>x. x \<noteq> d) ds)"
      by auto
    with Cons.IH Cons.prems(2) have "resolve ds s = Inl e" by blast
    with a show ?thesis by auto
  qed
qed

text \<open>
  Claim C5, as amended (resolution is total; a missing required variable fails).  For a
  schema with distinct variable names, as \<^verbatim>\<open>Function.VARIABLES\<close> and
  \<^verbatim>\<open>PostgresRDS.VARIABLES\<close> are: a resolution that succeeds binds exactly the declared
  variables, and binds every variable the supplied mapping omits to its declared
  default.  A resolution with a required variable (one without default) absent fails;
  it fails with \<^verbatim>\<open>MissingRequiredVariable\<close> naming that variable when every variable
  declared before it resolves.
\<close>

theorem resolve_defaults_and_missing:
  assumes "distinct (map var_name schema)"
  shows "(resolve schema supplied = Inr r \<longrightarrow>
            map fst r = map var_name schema \<and>
            (\<forall>d \<in> set schema. supplied (var_name d) = None \<longrightarrow>
               (\<exists>v. default_value d = Some v \<and> map_of r (var_name d) = Some v))) \<and>
         (d \<in> set schema \<and> default_value d = None \<and> supplied (var_name d) = None \<longrightarrow>
            (\<exists>e. resolve schema supplied = Inl e) \<and>
            (list_all (\<lambda>d'. \<exists>v. resolve_variable d' (supplied (var_name d')) = Inr v)
               (takeWhile (\<lambda>x. x \<noteq> d) schema) \<longrightarrow>
             resolve schema supplied = Inl (MissingRequiredVariable (var_name d))))"
proof (intro conjI impI)
  assume r: "resolve schema supplied = Inr r"
  then show names: "map fst r = map var_name schema" by (rule resolve_Inr_names)
  with assms have dist: "distinct (map fst r)" by simp
  show "\<forall>d \<in> set schema. supplied (var_name d) = None \<longrightarrow>
          (\<exists>v. default_value d = Some v \<and> map_of r (var_name d) = Some v)"
  proof (intro ballI impI)
    fix d assume "d \<in> set schema" "supplied (var_name d) = None"
    from resolve_Inr_default [OF r this] obtain v where
      "default_value d = Some v" "(var_name d, v) \<in> set r" by blast
    with dist show "\<exists>v. default_value d = Some v \<and> map_of r (var_name d) = Some v"
      by (auto intro: map_of_is_SomeI)
  qed
next
  assume d: "d \<in> set schema \<and> default_value d = None \<and> supplied (var_name d) = None"
  then have f: "resolve_variable d (supplied (var_name d)) = Inl (MissingRequiredVariable (var_name d))"
    by (simp add: resolve_variable_absent)
  from d have "d \<in> set schema" by simp
  then show "\<exists>e. resolve schema supplied = Inl e"
    using f by (rule resolve_fails [of d schema supplied])
  assume "list_all (\<lambda>d'. \<exists>v. resolve_variable d' (supplied (var_name d')) = Inr v)
            (takeWhile (\<lambda>x. x \<noteq> d) schema)"
  with d f show "resolve schema supplied = Inl (MissingRequiredVariable (var_name d))"
    using resolve_first_failure [of d schema supplied] by blast
qed

lemma declared_names_distinct:
  "distinct (map var_name Function_VARIABLES)"
  "distinct (map var_name PostgresRDS_VARIABLES)"
  by (simp_all add: Function_VARIABLES_def PostgresRDS_VARIABLES_def required_def optional_def)

lemma resolve_Function_example:
  "resolve Function_VARIABLES (map_of [(''Code'', example_code), (''Runtime'', Str ''python2.7'')]) =
     Inr [(''Code'', example_code), (''DeadLetterArn'', Str ''''), (''Description'', Str ''''),
          (''Environment'', Dict []), (''Handler'', Str ''handler''), (''KmsKeyArn'', Str ''''),
          (''MemorySize'', Num 128), (''Runtime'', Str ''python2.7''), (''Timeout'', Num 3),
          (''VpcConfig'', Dict []), (''Role'', Str ''''), (''AliasName'', Str ''''),
          (''AliasVersion'', Str ''$LATEST'')]"
  by (simp add: Function_VARIABLES_def required_def optional_def resolve_variable_def
      example_code_def is_Code_def is_Str_def)

text \<open>
  Counterexample to claim C5 as stated: with nothing supplied, \<^verbatim>\<open>Runtime\<close> is a
  required variable of \<^verbatim>\<open>Function\<close> that is absent, and the error names
  \<^verbatim>\<open>Code\<close>, the first violation, not \<^verbatim>\<open>Runtime\<close>.
\<close>

theorem resolve_missing_names_first:
  "required ''Runtime'' T_str \<in> set Function_VARIABLES \<and>
   default_value (required ''Runtime'' T_str) = None \<and>
   resolve Function_VARIABLES Map.empty = Inl (MissingRequiredVariable ''Code'')"
  by (simp add: Function_VARIABLES_def required_def optional_def resolve_variable_def)

theorem resolve_defaults_and_missing_witness:
  "(\<exists>r. resolve Function_VARIABLES
          (map_of [(''Code'', example_code), (''Runtime'', Str ''python2.7'')]) = Inr r \<and>
        map fst r = map var_name Function_VARIABLES \<and>
        map_of r ''Handler'' = Some (Str ''handler'') \<and>
        map_of r ''MemorySize'' = Some (Num 128) \<and>
        map_of r ''Timeout'' = Some (Num 3) \<and>
        map_of r ''Role'' = Some (Str '''')) \<and>
   resolve Function_VARIABLES (map_of [(''Code'', example_code)]) =
     Inl (MissingRequiredVariable ''Runtime'') \<and>
   resolve PostgresRDS_VARIABLES
     (map_of [(''VpcId'', Str ''vpc-1''), (''PrivateSubnets'', Lst [Str ''subnet-1'']),
              (''MasterUserPassword'', Str ''secret'')]) =
     Inl (MissingRequiredVariable ''DBName'')"
proof (intro conjI)
  let ?s = "map_of [(''Code'', example_code), (''Runtime'', Str ''python2.7'')]"
  from resolve_Function_example obtain r where r: "resolve Function_VARIABLES ?s = Inr r" by blast
  from resolve_defaults_and_missing [OF declared_names_distinct(1), of ?s r] r
  have names: "map fst r = map var_name Function_VARIABLES"
    and defaults: "\<forall>d \<in> set Function_VARIABLES. ?s (var_name d) = None \<longrightarrow>
               (\<exists>v. default_value d = Some v \<and> map_of r (var_name d) = Some v)"
    by blast+
  from defaults have "map_of r ''Handler'' = Some (Str ''handler'')"
    "map_of r ''MemorySize'' = Some (Num 128)"
    "map_of r ''Timeout'' = Some (Num 3)"
    "map_of r ''Role'' = Some (Str '''')"
    by (simp_all add: Function_VARIABLES_def required_def optional_def)
  with r names show "\<exists>r. resolve Function_VARIABLES ?s = Inr r \<and>
        map fst r = map var_name Function_VARIABLES \<and>
        map_of r ''Handler'' = Some (Str ''handler'') \<and>
        map_of r ''MemorySize'' = Some (Num 128) \<and>
        map_of r ''Timeout'' = Some (Num 3) \<and>
        map_of r ''Role'' = Some (Str '''')"
    by blast
  show "resolve Function_VARIABLES (map_of [(''Code'', example_code)]) =
     Inl (MissingRequiredVariable ''Runtime'')"
    using resolve_defaults_and_missing [OF declared_names_distinct(1),
        of "map_of [(''Code'', example_code)]" "[]" "required ''Runtime'' T_str"]
    by (simp add: Function_VARIABLES_def required_def optional_def resolve_variable_def
        example_code_def is_Code_def)
  show "resolve PostgresRDS_VARIABLES
     (map_of [(''VpcId'', Str ''vpc-1''), (''PrivateSubnets'', Lst [Str ''subnet-1'']),
              (''MasterUserPassword'', Str ''secret'')]) =
     Inl (MissingRequiredVariable ''DBName'')"
    using resolve_defaults_and_missing [OF declared_names_distinct(2),
        of "map_of [(''VpcId'', Str ''vpc-1''), (''PrivateSubnets'', Lst [Str ''subnet-1'']),
              (''MasterUserPassword'', Str ''secret'')]" "[]" "required ''DBName'' CFNString"]
    by (simp add: PostgresRDS_VARIABLES_def required_def optional_def resolve_variable_def
        is_Str_def is_Str_list_def)
qed

section \<open>Two renders of the same inputs\<close>

lemma template_eqI:
  fixes t1 t2 :: template
  assumes "resources t1 = resources t2" "outputs t1 = outputs t2" "conditions t1 = conditions t2"
  shows "t1 = t2"
  using assms by (cases t1, cases t2) simp

lemma create_function_inputs:
  assumes "variables s1 = variables s2" and "role_arn s1 = role_arn s2"
      and "template s1 = template s2"
  shows "map_sum id template (create_function chk s1) =
         map_sum id template (create_function chk s2)"
  unfolding create_function_def Let_def dead_letter_config_def environment_def vpc_config_def
    code_def
  by (simp add: assms sum.case_distrib [of "map_sum id template"]
      option.case_distrib [of "map_sum id template"] if_distrib [of "map_sum id template"]
      cong: sum.case_cong option.case_cong if_cong)

lemma Function_render_inputs:
  assumes "template s1 = fresh_template" "template s2 = fresh_template"
      and "variables s1 = variables s2"
      and "get_fqn s1 (name s1) = get_fqn s2 (name s2)"
  shows "map_sum id template (Function_create_template chk s1) =
         map_sum id template (Function_create_template chk s2)"
proof -
  define a1 where "a1 = s1\<lparr>role_arn := Some (Str (Role (variables s1)))\<rparr>"
  define a2 where "a2 = s2\<lparr>role_arn := Some (Str (Role (variables s2)))\<rparr>"
  have a: "variables a1 = variables a2" "role_arn a1 = role_arn a2" "template a1 = template a2"
    "resources (template a1) = []" "resources (template a2) = []"
    "get_fqn a1 (name a1) = get_fqn a2 (name a2)"
    by (simp_all add: a1_def a2_def assms fresh_template_def)
  show ?thesis
  proof (cases "Role (variables s1) = []")
    case True
    from create_role_ok [of a1] a obtain b1 where
      b1: "create_role a1 = Inr b1"
        "resources (template b1) = resources (template a1) @ [Role_resource]"
        "outputs (template b1) = outputs (template a1) @
           [Output ''RoleName'' (Ref ''Role''), Output ''RoleArn'' (GetAtt ''Role'' ''Arn'')]"
        "conditions (template b1) = conditions (template a1)"
        "role b1 = Some Role_resource" "role_arn b1 = Some (GetAtt ''Role'' ''Arn'')"
        "variables b1 = variables a1" "name b1 = name a1" "get_fqn b1 = get_fqn a1"
      by auto
    from create_role_ok [of a2] a obtain b2 where
      b2: "create_role a2 = Inr b2"
        "resources (template b2) = resources (template a2) @ [Role_resource]"
        "outputs (template b2) = outputs (template a2) @
           [Output ''RoleName'' (Ref ''Role''), Output ''RoleArn'' (GetAtt ''Role'' ''Arn'')]"
        "conditions (template b2) = conditions (template a2)"
        "role b2 = Some Role_resource" "role_arn b2 = Some (GetAtt ''Role'' ''Arn'')"
        "variables b2 = variables a2" "name b2 = name a2" "get_fqn b2 = get_fqn a2"
      by auto
    have p1: "''Policy'' \<notin> set (map title (resources (template b1)))"
      by (simp add: b1 a Role_resource_def)
    have p2: "''Policy'' \<notin> set (map title (resources (template b2)))"
      by (simp add: b2 a Role_resource_def)
    from create_policy_ok [OF p1 b1(5)] obtain c1 where
      c1: "create_policy b1 = Inr c1"
        "resources (template c1) =
           resources (template b1) @ [Policy_resource (get_fqn b1 (name b1))]"
        "outputs (template c1) = outputs (template b1) @ [Output ''PolicyName'' (Ref ''Policy'')]"
        "conditions (template c1) = conditions (template b1)"
        "role_arn c1 = role_arn b1" "variables c1 = variables b1"
      by blast
    from create_policy_ok [OF p2 b2(5)] obtain c2 where
      c2: "create_policy b2 = Inr c2"
        "resources (template c2) =
           resources (template b2) @ [Policy_resource (get_fqn b2 (name b2))]"
        "outputs (template c2) = outputs (template b2) @ [Output ''PolicyName'' (Ref ''Policy'')]"
        "conditions (template c2) = conditions (template b2)"
        "role_arn c2 = role_arn b2" "variables c2 = variables b2"
      by blast
    have "template c1 = template c2"
      by (rule template_eqI) (simp_all add: c1 c2 b1 b2 a)
    moreover have "variables c1 = variables c2" "role_arn c1 = role_arn c2"
      by (simp_all add: c1 c2 b1 b2 a)
    ultimately have "map_sum id template (create_function chk c1) =
        map_sum id template (create_function chk c2)"
      by (intro create_function_inputs)
    with True assms(3) b1(1) b2(1) c1(1) c2(1) show ?thesis
      unfolding a1_def a2_def by (simp add: Function_create_template_def Let_def)
  next
    case False
    from a have "map_sum id template (create_function chk a1) =
        map_sum id template (create_function chk a2)"
      by (intro create_function_inputs)
    with False assms(3) show ?thesis
      unfolding a1_def a2_def by (simp add: Function_create_template_def Let_def)
  qed
qed

lemma FunctionScheduler_render_inputs:
  assumes "template g1 = template g2" and "variables g1 = variables g2"
  shows "map_sum id template (FunctionScheduler_create_template g1) =
         map_sum id template (FunctionScheduler_create_template g2)"
  using assms
  by (simp add: FunctionScheduler_create_template_def create_scheduler_def Let_def
      split: sum.splits)

lemma PostgresRDS_render_inputs:
  assumes "template p1 = fresh_template" "template p2 = fresh_template"
      and "name p1 = name p2"
  shows "map_sum id template (PostgresRDS_create_template p1) =
         map_sum id template (PostgresRDS_create_template p2)"
proof (cases "validate_title (name p1)")
  case True
  from PostgresRDS_create_template_ok [OF assms(1) True] obtain b1 where
    b1: "PostgresRDS_create_template p1 = Inr b1"
      "resources (template b1) = postgres_resources (name p1)"
      "outputs (template b1) = postgres_outputs (name p1)"
      "conditions (template b1) = postgres_conditions"
    by blast
  from True assms(3) have "validate_title (name p2)" by simp
  from PostgresRDS_create_template_ok [OF assms(2) this] obtain b2 where
    b2: "PostgresRDS_create_template p2 = Inr b2"
      "resources (template b2) = postgres_resources (name p2)"
      "outputs (template b2) = postgres_outputs (name p2)"
      "conditions (template b2) = postgres_conditions"
    by blast
  have "template b1 = template b2"
    by (rule template_eqI) (simp_all add: b1 b2 assms(3))
  with b1(1) b2(1) show ?thesis by simp
next
  case False
  from False assms(3) have "\<not> validate_title (name p2)" by simp
  from PostgresRDS_create_template_invalid_name [OF False]
       PostgresRDS_create_template_invalid_name [OF this] assms(3)
  show ?thesis by simp
qed

lemma add_permissions_clash:
  assumes "\<not> list_all (\<lambda>k. ''PermToInvokeFunctionFor'' @ k \<notin> set (map title (resources t)))
               (map fst items)"
  shows "\<exists>e. add_permissions src items t = Inl e"
  using assms
proof (induction items arbitrary: t)
  case Nil
  then show ?case by simp
next
  case (Cons item items)
  obtain k v where item: "item = (k, v)" by (cases item)
  show ?case
  proof (cases "''PermToInvokeFunctionFor'' @ k \<in> set (map title (resources t))")
    case True
    with item show ?thesis by (simp add: add_resource_def Permission_def)
  next
    case False
    let ?t = "t\<lparr>resources := resources t @ [Permission k v src]\<rparr>"
    from False have step: "add_resource (Permission k v src) t = Inr ?t"
      by (simp add: add_resource_def Permission_def)
    from Cons.prems item False
    have "\<not> list_all (\<lambda>k. ''PermToInvokeFunctionFor'' @ k \<notin> set (map title (resources ?t)))
             (map fst items)"
      by (auto simp: list_all_iff)
    from Cons.IH [OF this] step item show ?thesis by simp
  qed
qed

lemma add_permissions_any_order:
  assumes "set xs = set ys" and "distinct (map fst xs)" and "distinct (map fst ys)"
  shows "map_sum (\<lambda>e. ()) (\<lambda>t'. (set (resources t'), outputs t', conditions t'))
           (add_permissions src xs t) =
         map_sum (\<lambda>e. ()) (\<lambda>t'. (set (resources t'), outputs t', conditions t'))
           (add_permissions src ys t)"
proof (cases "list_all (\<lambda>k. ''PermToInvokeFunctionFor'' @ k \<notin> set (map title (resources t)))
                (map fst xs)")
  case True
  with assms(1) have "list_all (\<lambda>k. ''PermToInvokeFunctionFor'' @ k \<notin> set (map title (resources t)))
      (map fst ys)"
    by (simp add: list_all_iff)
  from add_permissions_ok [OF assms(2) True, of src] add_permissions_ok [OF assms(3) this, of src]
    assms(1)
  show ?thesis by simp
next
  case False
  with assms(1) have "\<not> list_all (\<lambda>k. ''PermToInvokeFunctionFor'' @ k \<notin> set (map title (resources t)))
      (map fst ys)"
    by (simp add: list_all_iff)
  from add_permissions_clash [OF False, of src] add_permissions_clash [OF this, of src]
  show ?thesis by auto
qed

text \<open>
  Claim C7 (render determinism), as a two-run equality.  Two renders on fresh templates
  produce the same outcome, the same error or the same resources, outputs and conditions,
  whenever they agree on the inputs of the blueprint: for \<^verbatim>\<open>Function\<close> the resolved
  variables and the context's name for the blueprint (whatever attributes an earlier
  render left on the object), for \<^verbatim>\<open>FunctionScheduler\<close> the resolved variables, for
  \<^verbatim>\<open>PostgresRDS\<close> the blueprint's name.  The dictionary \<^verbatim>\<open>aws_lambda_arns\<close> is
  iterated in insertion order; \<open>add_permissions_any_order\<close> shows that another
  iteration order yields the same set of resources, or fails as well.
\<close>

theorem render_deterministic:
  "(template s1 = fresh_template \<and> template s2 = fresh_template \<and>
    variables s1 = variables s2 \<and> get_fqn s1 (name s1) = get_fqn s2 (name s2) \<longrightarrow>
      map_sum id template (Function_create_template chk s1) =
      map_sum id template (Function_create_template chk s2)) \<and>
   (template g1 = fresh_template \<and> template g2 = fresh_template \<and>
    variables g1 = variables g2 \<longrightarrow>
      map_sum id template (FunctionScheduler_create_template g1) =
      map_sum id template (FunctionScheduler_create_template g2)) \<and>
   (template p1 = fresh_template \<and> template p2 = fresh_template \<and> name p1 = name p2 \<longrightarrow>
      map_sum id template (PostgresRDS_create_template p1) =
      map_sum id template (PostgresRDS_create_template p2))"
  using Function_render_inputs [of s1 s2 chk] FunctionScheduler_render_inputs [of g1 g2]
    PostgresRDS_render_inputs [of p1 p2]
  by simp

theorem render_deterministic_witness:
  "map_sum id template (Function_create_template example_checks (Function ''f'' id example_variables)) =
   map_sum id template
     (Function_create_template example_checks
        ((Function ''f'' (\<lambda>n. if n = ''f'' then ''f'' else ''other'') example_variables)
           \<lparr>role := Some LatestVersion_resource, role_arn := Some (Str ''stale'')\<rparr>)) \<and>
   map_sum id template
     (FunctionScheduler_create_template
        (FunctionScheduler ''a'' id \<lparr>CloudwatchEventsRule = example_rule\<rparr>)) =
   map_sum id template
     (FunctionScheduler_create_template
        (FunctionScheduler ''b'' (\<lambda>n. ''x'') \<lparr>CloudwatchEventsRule = example_rule\<rparr>)) \<and>
   map_sum id template
     (PostgresRDS_create_template (PostgresRDS ''db'' id example_postgres_variables)) =
   map_sum id template
     (PostgresRDS_create_template
        (PostgresRDS ''db'' (\<lambda>n. ''x'')
           (example_postgres_variables\<lparr>InternalHostname := ''db''\<rparr>)))"
  using render_deterministic
    [of "Function ''f'' id example_variables"
        "(Function ''f'' (\<lambda>n. if n = ''f'' then ''f'' else ''other'') example_variables)
           \<lparr>role := Some LatestVersion_resource, role_arn := Some (Str ''stale'')\<rparr>"
        example_checks
        "FunctionScheduler ''a'' id \<lparr>CloudwatchEventsRule = example_rule\<rparr>"
        "FunctionScheduler ''b'' (\<lambda>n. ''x'') \<lparr>CloudwatchEventsRule = example_rule\<rparr>"
        "PostgresRDS ''db'' id example_postgres_variables"
        "PostgresRDS ''db'' (\<lambda>n. ''x'') (example_postgres_variables\<lparr>InternalHostname := ''db''\<rparr>)"]
  by (simp add: Function_def FunctionScheduler_def PostgresRDS_def)

end
